theory Spec2Isabelle
  imports Complex_Main "HOL-Library.Log_Nat" "HOL-Library.Signed_Division"
begin

section \<open>Types, attributes and values of the IR\<close>

text \<open>
  The two source files work on MLIR types and SSA values.  Only what the code reads is
  modelled: whether a type is shaped, its shape (a list of \<open>int64_t\<close> extents), its element
  type and, for a memref, its layout.  Every shaped type of the model is ranked.
\<close>

datatype Layout = StridedLayout "int list" int | AffineMapLayout string

datatype Type =
    FloatType nat
  | IndexType
  | IntegerType nat
  | RankedTensorType "int list" Type
  | VectorType "int list" Type
  | MemRefType "int list" Type Layout
  | OpaqueType string

fun isaShapedType :: "Type \<Rightarrow> bool" where
  "isaShapedType (RankedTensorType s e) = True"
| "isaShapedType (VectorType s e) = True"
| "isaShapedType (MemRefType s e l) = True"
| "isaShapedType t = False"

fun isaMemRefType :: "Type \<Rightarrow> bool" where
  "isaMemRefType (MemRefType s e l) = True"
| "isaMemRefType t = False"

text \<open>\<open>ShapedType::getShape()\<close> and \<open>ShapedType::getElementType()\<close>, on a shaped type.\<close>

fun ShapedType_getShape :: "Type \<Rightarrow> int list" where
  "ShapedType_getShape (RankedTensorType s e) = s"
| "ShapedType_getShape (VectorType s e) = s"
| "ShapedType_getShape (MemRefType s e l) = s"
| "ShapedType_getShape t = []"

fun ShapedType_getElementType :: "Type \<Rightarrow> Type" where
  "ShapedType_getElementType (RankedTensorType s e) = e"
| "ShapedType_getElementType (VectorType s e) = e"
| "ShapedType_getElementType (MemRefType s e l) = e"
| "ShapedType_getElementType t = t"

datatype Attribute =
    FloatAttr Type rat
  | IndexAttr int
  | IntegerAttr Type nat int
  | DenseElementsAttr Type Attribute

text \<open>
  \<open>getOneAttr\<close> (TppEnforcePrecondition.cpp, lines 42-58).  \<open>None\<close> is the null attribute
  \<open>{}\<close>.  \<open>IntegerAttr t w v\<close> stands for \<open>getIntegerAttr(t, APInt(w, v))\<close>.
\<close>

fun getOneAttr :: "Type \<Rightarrow> Attribute option" where
  "getOneAttr (FloatType w) = Some (FloatAttr (FloatType w) 1)"
| "getOneAttr IndexType = Some (IndexAttr 1)"
| "getOneAttr (IntegerType w) = Some (IntegerAttr (IntegerType w) w 1)"
| "getOneAttr (RankedTensorType s e) =
     (case getOneAttr e of None \<Rightarrow> None
      | Some element \<Rightarrow> Some (DenseElementsAttr (RankedTensorType s e) element))"
| "getOneAttr (VectorType s e) =
     (case getOneAttr e of None \<Rightarrow> None
      | Some element \<Rightarrow> Some (DenseElementsAttr (VectorType s e) element))"
| "getOneAttr t = None"

text \<open>
  \<open>Builder::getZeroAttr\<close> of MLIR, which the source's \<open>getOneAttr\<close> mirrors (its comment
  reads "See getZeroAttr"): the same case analysis with the value 0.
\<close>

fun getZeroAttr :: "Type \<Rightarrow> Attribute option" where
  "getZeroAttr (FloatType w) = Some (FloatAttr (FloatType w) 0)"
| "getZeroAttr IndexType = Some (IndexAttr 0)"
| "getZeroAttr (IntegerType w) = Some (IntegerAttr (IntegerType w) w 0)"
| "getZeroAttr (RankedTensorType s e) =
     (case getZeroAttr e of None \<Rightarrow> None
      | Some element \<Rightarrow> Some (DenseElementsAttr (RankedTensorType s e) element))"
| "getZeroAttr (VectorType s e) =
     (case getZeroAttr e of None \<Rightarrow> None
      | Some element \<Rightarrow> Some (DenseElementsAttr (VectorType s e) element))"
| "getZeroAttr t = None"

text \<open>
  An SSA value is either a value that exists before the rewrite (\<open>OpOperand\<close>, with an
  identity and its type), the result of an \<open>arith.constant\<close> (type and value attribute), or
  the result of \<open>tensor::createPadHighOp(type, source, pad, nofold, loc, rewriter)\<close>.
\<close>

datatype Value =
    OpOperand nat Type
  | ConstantOp Type "Attribute option"
  | PadHighOp Type Value Value bool

fun getType :: "Value \<Rightarrow> Type" where
  "getType (OpOperand i t) = t"
| "getType (ConstantOp t a) = t"
| "getType (PadHighOp t source pad nofold) = t"

section \<open>Errors\<close>

text \<open>
  In a build with assertions the source aborts on a failed \<open>assert\<close> (also the ones inside
  \<open>cast\<close>, \<open>getOperand\<close> and \<open>ArrayRef::operator[]\<close>); a conversion of a \<open>double\<close> outside the range of \<open>int64_t\<close> is
  undefined.  Both are error values of the model; \<open>failure()\<close> is not an error but the
  pattern's ordinary "no match" result.
\<close>

datatype Error = AssertionFailure string | UndefinedConversion

datatype LogicalResult = success | failure

definition bindE :: "Error + 'a \<Rightarrow> ('a \<Rightarrow> Error + 'b) \<Rightarrow> Error + 'b" where
  "bindE m f = (case m of Inl e \<Rightarrow> Inl e | Inr x \<Rightarrow> f x)"

definition elemAt :: "'a list \<Rightarrow> nat \<Rightarrow> Error + 'a" where
  "elemAt xs i = (if i < length xs then Inr (xs ! i) else Inl (AssertionFailure ''Invalid index!''))"

definition cast_ShapedType :: "Type \<Rightarrow> Error + Type" where
  "cast_ShapedType t =
     (if isaShapedType t then Inr t
      else Inl (AssertionFailure ''cast<Ty>() argument of incompatible type!''))"

section \<open>The arithmetic of the padding targets\<close>

text \<open>
  Lines 78 and 116 compute the padded extent in floating point:
  \<^verbatim>\<open>int64_t paddedSimd = 16 * std::ceil((float)simdDim / 16.0);\<close>
  The cast rounds the extent to single precision (24 significant bits), the division by the
  \<open>double\<close> constant and the multiplication by the integer constant are carried out in double
  precision (53 significant bits), \<open>std::ceil\<close> is exact, and the result is converted back
  to \<open>int64_t\<close>.  A floating-point number is modelled by the rational it denotes; every
  operation is the exact operation followed by IEEE 754 rounding to nearest, ties to even.
  The exponent range is not modelled: all values that arise from an \<open>int64_t\<close> lie between
  \<open>2\<^sup>-\<^sup>4\<close> and \<open>2\<^sup>6\<^sup>7\<close>, far inside the range of both formats.
\<close>

definition round_half_even :: "rat \<Rightarrow> int" where
  "round_half_even x =
     (let f = \<lfloor>x\<rfloor>; d = x - of_int f
      in if d < 1 / 2 then f else if 1 / 2 < d then f + 1 else if even f then f else f + 1)"

text \<open>\<open>floor_log2 x\<close> is the integer \<open>k\<close> with \<open>2\<^sup>k \<le> x < 2\<^sup>k\<^sup>+\<^sup>1\<close>, for \<open>x > 0\<close>.\<close>

definition floor_log2 :: "rat \<Rightarrow> int" where
  "floor_log2 x = (if 1 \<le> x then bitlen \<lfloor>x\<rfloor> - 1 else - bitlen (\<lceil>1 / x\<rceil> - 1))"

definition round_to_precision :: "nat \<Rightarrow> rat \<Rightarrow> rat" where
  "round_to_precision p x =
     (if x = 0 then 0
      else let e = floor_log2 \<bar>x\<bar> - (int p - 1)
           in sgn x * of_int (round_half_even (\<bar>x\<bar> / power_int 2 e)) * power_int 2 e)"

definition float_of_int64 :: "int \<Rightarrow> rat" where
  "float_of_int64 n = round_to_precision 24 (of_int n)"

definition double_div :: "rat \<Rightarrow> rat \<Rightarrow> rat" where
  "double_div x y = round_to_precision 53 (x / y)"

definition double_mul :: "rat \<Rightarrow> rat \<Rightarrow> rat" where
  "double_mul x y = round_to_precision 53 (x * y)"

definition std_ceil :: "rat \<Rightarrow> rat" where
  "std_ceil x = of_int \<lceil>x\<rceil>"

text \<open>Conversion to \<open>int64_t\<close> truncates towards zero and is undefined out of range.\<close>

definition int64_of_double :: "rat \<Rightarrow> Error + int" where
  "int64_of_double x =
     (let t = (if 0 \<le> x then \<lfloor>x\<rfloor> else \<lceil>x\<rceil>)
      in if - (2 ^ 63) \<le> t \<and> t < 2 ^ 63 then Inr t else Inl UndefinedConversion)"

text \<open>The initialisers of \<open>paddedSimd\<close> (line 78) and \<open>paddedParallel\<close> (line 116).\<close>

definition paddedSimd :: "int \<Rightarrow> Error + int" where
  "paddedSimd simdDim =
     int64_of_double (double_mul 16 (std_ceil (double_div (float_of_int64 simdDim) 16)))"

definition paddedParallel :: "int \<Rightarrow> Error + int" where
  "paddedParallel parallelDim =
     int64_of_double (double_mul 6 (std_ceil (double_div (float_of_int64 parallelDim) 6)))"

section \<open>The pattern \<open>PadSIMDDimensionForGemm\<close>\<close>

record GemmOperands =
  opA :: Value
  opB :: Value
  opC :: Value

text \<open>
  A \<open>linalg.generic\<close> operation: its operands are the inputs followed by the outputs.  The
  indexing maps, the iterator types and the region are opaque to the pattern, which only
  copies them.
\<close>

record GenericOp =
  resultTypes :: "Type list"
  inputs :: "Value list"
  outputs :: "Value list"
  indexingMaps :: "string list"
  iteratorTypes :: "string list"
  doc :: string
  libraryCall :: string
  region :: string

text \<open>
  A \<open>tensor.extract_slice\<close> of result 0 of a \<open>linalg.generic\<close>, with its static offsets,
  sizes and strides.
\<close>

record ExtractSliceOp =
  sliceSource :: GenericOp
  staticOffsets :: "int list"
  staticSizes :: "int list"
  staticStrides :: "int list"

text \<open>
  The pattern rewriter is the state of the transformation: the log of what the pattern has
  asked it to do, in order.
\<close>

datatype Event =
    Create Value
  | CreateGeneric GenericOp
  | CreateExtractSlice ExtractSliceOp
  | ReplaceOp GenericOp ExtractSliceOp

type_synonym PatternRewriter = "Event list"

definition getOperand :: "GenericOp \<Rightarrow> nat \<Rightarrow> Error + Value" where
  "getOperand linalgOp i = elemAt (inputs linalgOp @ outputs linalgOp) i"

text \<open>
  \<open>padSIMDDimension\<close> (lines 70-105) and \<open>padParallelDimension\<close> (lines 108-143).  They
  update \<open>operands\<close> in place; the model returns the rewriter and the operands.  The test
  \<open>x % n == 0\<close> of C++ uses the remainder of the division that truncates towards zero,
  \<open>smod\<close>.  In \<open>padParallelDimension\<close> the constant \<open>padOne\<close> is built from the element type
  of \<open>operands.B\<close> (lines 131-134), as the source has it.
\<close>

definition padSIMDDimension ::
  "PatternRewriter \<Rightarrow> GemmOperands \<Rightarrow> int \<Rightarrow> Error + (PatternRewriter \<times> GemmOperands)" where
  "padSIMDDimension rewriter operands simdDim =
     (if simdDim smod 16 = 0 then Inr (rewriter, operands)
      else
        bindE (paddedSimd simdDim) (\<lambda>paddedSimd.
        bindE (cast_ShapedType (getType (opB operands))) (\<lambda>typeB.
        bindE (cast_ShapedType (getType (opC operands))) (\<lambda>typeC.
        bindE (elemAt (ShapedType_getShape typeC) 0) (\<lambda>shapeC0.
        bindE (elemAt (ShapedType_getShape typeB) 0) (\<lambda>shapeB0.
        let newShapeC = [shapeC0, paddedSimd];
            newShapeB = [shapeB0, paddedSimd];
            newRankedC = RankedTensorType newShapeC (ShapedType_getElementType typeC);
            newRankedB = RankedTensorType newShapeB (ShapedType_getElementType typeB);
            padZero = ConstantOp (ShapedType_getElementType typeC)
                        (getZeroAttr (ShapedType_getElementType typeC));
            padOne = ConstantOp (ShapedType_getElementType typeB)
                        (getOneAttr (ShapedType_getElementType typeB));
            paddedC = PadHighOp newRankedC (opC operands) padZero False;
            paddedB = PadHighOp newRankedB (opB operands) padOne False
        in Inr (rewriter @ [Create padZero, Create padOne, Create paddedC, Create paddedB],
                operands\<lparr>opC := paddedC, opB := paddedB\<rparr>)))))))"

definition padParallelDimension ::
  "PatternRewriter \<Rightarrow> GemmOperands \<Rightarrow> int \<Rightarrow> Error + (PatternRewriter \<times> GemmOperands)" where
  "padParallelDimension rewriter operands parallelDim =
     (if parallelDim smod 6 = 0 then Inr (rewriter, operands)
      else
        bindE (paddedParallel parallelDim) (\<lambda>paddedParallel.
        bindE (cast_ShapedType (getType (opA operands))) (\<lambda>typeA.
        bindE (cast_ShapedType (getType (opC operands))) (\<lambda>typeC.
        bindE (elemAt (ShapedType_getShape typeC) 1) (\<lambda>shapeC1.
        bindE (elemAt (ShapedType_getShape typeA) 1) (\<lambda>shapeA1.
        bindE (cast_ShapedType (getType (opB operands))) (\<lambda>typeB.
        let newShapeC = [paddedParallel, shapeC1];
            newShapeA = [paddedParallel, shapeA1];
            newRankedC = RankedTensorType newShapeC (ShapedType_getElementType typeC);
            newRankedA = RankedTensorType newShapeA (ShapedType_getElementType typeA);
            padZero = ConstantOp (ShapedType_getElementType typeC)
                        (getZeroAttr (ShapedType_getElementType typeC));
            padOne = ConstantOp (ShapedType_getElementType typeB)
                        (getOneAttr (ShapedType_getElementType typeB));
            paddedC = PadHighOp newRankedC (opC operands) padZero False;
            paddedA = PadHighOp newRankedA (opA operands) padOne False
        in Inr (rewriter @ [Create padZero, Create padOne, Create paddedC, Create paddedA],
                operands\<lparr>opC := paddedC, opA := paddedA\<rparr>))))))))"

text \<open>The test of line 174, named as in the specification.\<close>

definition isCompliant :: "int \<Rightarrow> int \<Rightarrow> bool" where
  "isCompliant simdDim parallelDim \<longleftrightarrow> simdDim smod 16 = 0 \<and> parallelDim smod 6 = 0"

text \<open>
  The replacement operation of lines 180-187: the padded operands, the indexing maps and
  iterator types of the original operation, the library call \<open>tpp.matmul\<close>, and the region
  of the original operation (\<open>inlineRegionBefore\<close>).
\<close>

definition createReplacementOp :: "GenericOp \<Rightarrow> GemmOperands \<Rightarrow> GenericOp" where
  "createReplacementOp linalgOp operands =
     \<lparr>resultTypes = [getType (opC operands)],
      inputs = [opA operands, opB operands],
      outputs = [opC operands],
      indexingMaps = indexingMaps linalgOp,
      iteratorTypes = iteratorTypes linalgOp,
      doc = [],
      libraryCall = ''tpp.matmul'',
      region = region linalgOp\<rparr>"

text \<open>The loop of lines 190-201 and the \<open>tensor.extract_slice\<close> it feeds.\<close>

definition createExtractSlice :: "int list \<Rightarrow> GenericOp \<Rightarrow> ExtractSliceOp" where
  "createExtractSlice shapeC replacementOp =
     (let rank = length shapeC
      in \<lparr>sliceSource = replacementOp,
          staticOffsets = map (\<lambda>r. 0) [0..<rank],
          staticSizes = map (\<lambda>r. shapeC ! r) [0..<rank],
          staticStrides = map (\<lambda>r. 1) [0..<rank]\<rparr>)"

text \<open>
  \<open>padDimensions\<close> (lines 145-205).  \<open>shapeC\<close> is read before the padding and is the shape of
  the original accumulator throughout.
\<close>

definition padDimensions ::
  "PatternRewriter \<Rightarrow> GenericOp \<Rightarrow> Error + (LogicalResult \<times> PatternRewriter)" where
  "padDimensions rewriter linalgOp =
     bindE (getOperand linalgOp 0) (\<lambda>a.
     bindE (getOperand linalgOp 1) (\<lambda>b.
     bindE (getOperand linalgOp 2) (\<lambda>c.
     let operands = \<lparr>opA = a, opB = b, opC = c\<rparr>
     in if \<not> isaShapedType (getType (opC operands)) \<or> \<not> isaShapedType (getType (opB operands))
           \<or> \<not> isaShapedType (getType (opA operands))
        then Inr (failure, rewriter)
        else
          let shapeC = ShapedType_getShape (getType (opC operands));
              shapeB = ShapedType_getShape (getType (opB operands));
              shapeA = ShapedType_getShape (getType (opA operands))
          in if length shapeC \<noteq> 2 \<or> length shapeB \<noteq> 2 \<or> length shapeA \<noteq> 2
             then Inl (AssertionFailure ''expect 2d gemm'')
             else if shapeC ! 1 \<noteq> shapeB ! 1 \<or> shapeC ! 0 \<noteq> shapeA ! 0 \<or> shapeA ! 1 \<noteq> shapeB ! 0
             then Inl (AssertionFailure ''expect equal'')
             else
               let simdDim = shapeC ! 1;
                   parallelDim = shapeC ! 0
               in if isCompliant simdDim parallelDim then Inr (failure, rewriter)
                  else
                    bindE (padSIMDDimension rewriter operands simdDim) (\<lambda>(rewriter1, operands1).
                    bindE (padParallelDimension rewriter1 operands1 parallelDim)
                      (\<lambda>(rewriter2, operands2).
                    let replacementOp = createReplacementOp linalgOp operands2;
                        extract = createExtractSlice shapeC replacementOp
                    in Inr (success,
                            rewriter2 @ [CreateGeneric replacementOp, CreateExtractSlice extract,
                                         ReplaceOp linalgOp extract]))))))"

text \<open>
  \<open>matchAndRewrite\<close> (lines 207-216).  \<open>hasTensorSemantics\<close>, \<open>hasStaticShape\<close> and
  \<open>hasTppMark\<close> are not part of the two source files: they are parameters.
\<close>

definition matchAndRewrite ::
  "(GenericOp \<Rightarrow> bool) \<Rightarrow> (GenericOp \<Rightarrow> bool) \<Rightarrow> (GenericOp \<Rightarrow> bool) \<Rightarrow>
   PatternRewriter \<Rightarrow> GenericOp \<Rightarrow> Error + (LogicalResult \<times> PatternRewriter)" where
  "matchAndRewrite hasTensorSemantics hasStaticShape hasTppMark rewriter linalgOp =
     (if \<not> hasTensorSemantics linalgOp \<or> \<not> hasStaticShape linalgOp \<or> \<not> hasTppMark linalgOp
      then Inr (failure, rewriter)
      else if libraryCall linalgOp \<noteq> ''tpp.matmul'' then Inr (failure, rewriter)
      else padDimensions rewriter linalgOp)"

section \<open>The verification predicates of TppTraits.cpp\<close>

text \<open>
  An operation is seen through the types of its operands (\<open>op->getOperandTypes()\<close>).  The
  sentinel extent \<open>ShapedType::kDynamic\<close> is declared outside the two source files and is a
  parameter.  A verification result is the \<open>LogicalResult\<close> together with the diagnostics
  emitted on the operation.
\<close>

datatype Diagnostic =
    OperandsNotBroadcastCompatible
  | ResultNotBroadcastCompatible
  | FailedToComputeStrides nat
  | NonUnitStride nat

type_synonym Verification = "LogicalResult \<times> Diagnostic list"

definition isDynamic :: "int \<Rightarrow> int \<Rightarrow> bool" where
  "isDynamic kDynamic d \<longleftrightarrow> d = kDynamic"

text \<open>The static function \<open>getShape\<close> of TppTraits.cpp (lines 9-13).\<close>

definition getShape :: "Type \<Rightarrow> int list" where
  "getShape type = (if isaShapedType type then ShapedType_getShape type else [])"

text \<open>The lambda of lines 17-24: \<open>dim1\<close> is the inferred extent, \<open>dim2\<close> the existing one.\<close>

definition isCompatible :: "int \<Rightarrow> int \<Rightarrow> int \<Rightarrow> bool" where
  "isCompatible kDynamic dim1 dim2 \<longleftrightarrow>
     dim1 = dim2 \<or> isDynamic kDynamic dim1 \<or> isDynamic kDynamic dim2 \<or> dim1 = 1"

definition isCompatibleInferredReturnShape :: "int \<Rightarrow> int list \<Rightarrow> int list \<Rightarrow> bool" where
  "isCompatibleInferredReturnShape kDynamic inferred existing =
     (if length inferred \<noteq> length existing then False
      else list_all (\<lambda>p. isCompatible kDynamic (fst p) (snd p)) (zip inferred existing))"

text \<open>
  Modelled from the spec: \<open>OpTrait::util::getBroadcastedShape\<close> is called by
  \<open>verifyCompatibleOperandBroadcast\<close> but is not under src/.  The specification: "dimensions
  align from the trailing/fastest-varying end; two dimensions are compatible if equal, if
  either is size 1, or if either is dynamic/unknown; result extent is the non-1, non-dynamic
  one when determinable".  \<open>broadcastDims\<close> walks the two shapes from their trailing ends;
  the result keeps the leading extents of the longer shape, and is cleared on failure.
\<close>

fun broadcastDims :: "int \<Rightarrow> int list \<Rightarrow> int list \<Rightarrow> int list option" where
  "broadcastDims kDynamic [] ys = Some ys"
| "broadcastDims kDynamic (x # xs) [] = Some (x # xs)"
| "broadcastDims kDynamic (x # xs) (y # ys) =
     (if isDynamic kDynamic x \<or> isDynamic kDynamic y
      then map_option
             (Cons (if 1 < x then x else if 1 < y then y else if x = 1 then y
                    else if y = 1 then x else kDynamic))
             (broadcastDims kDynamic xs ys)
      else if x = y \<or> y = 1 then map_option (Cons x) (broadcastDims kDynamic xs ys)
      else if x = 1 then map_option (Cons y) (broadcastDims kDynamic xs ys)
      else None)"

definition getBroadcastedShape :: "int \<Rightarrow> int list \<Rightarrow> int list \<Rightarrow> bool \<times> int list" where
  "getBroadcastedShape kDynamic shape1 shape2 =
     (case broadcastDims kDynamic (rev shape1) (rev shape2) of
        None \<Rightarrow> (False, [])
      | Some r \<Rightarrow> (True, rev r))"

text \<open>\<open>ArrayRef::take_back\<close>.\<close>

definition take_back :: "nat \<Rightarrow> 'a list \<Rightarrow> 'a list" where
  "take_back n xs = (if length xs \<le> n then xs else drop (length xs - n) xs)"

text \<open>
  The loop of lines 44-53: \<open>None\<close> when some input does not broadcast with the shape
  accumulated so far, otherwise the broadcast of all of them.
\<close>

fun broadcastInputs :: "int \<Rightarrow> int list \<Rightarrow> Type list \<Rightarrow> int list option" where
  "broadcastInputs kDynamic resultShape [] = Some resultShape"
| "broadcastInputs kDynamic resultShape (other # rest) =
     (let temp = resultShape;
          r = getBroadcastedShape kDynamic temp (getShape other)
      in if \<not> fst r then None else broadcastInputs kDynamic (snd r) rest)"

definition verifyCompatibleOperandBroadcast ::
  "int \<Rightarrow> Type list \<Rightarrow> Type \<Rightarrow> bool \<Rightarrow> Verification" where
  "verifyCompatibleOperandBroadcast kDynamic inputTypes outputType emitDiagnostic =
     (if inputTypes = [] then (success, [])
      else
        let resultShape0 = snd (getBroadcastedShape kDynamic (getShape (hd inputTypes)) [])
        in case broadcastInputs kDynamic resultShape0 inputTypes of
             None \<Rightarrow>
               if emitDiagnostic then (failure, [OperandsNotBroadcastCompatible])
               else (failure, [])
           | Some resultShape \<Rightarrow>
               let actualSuffix = take_back (length resultShape) (getShape outputType)
               in if \<not> isCompatibleInferredReturnShape kDynamic resultShape actualSuffix
                  then if emitDiagnostic then (failure, [ResultNotBroadcastCompatible])
                       else (failure, [])
                  else (success, []))"

text \<open>
  \<open>verifyBroadcastableShape\<close> (lines 67-80): the inputs are all operands but the last.  With
  no operand at all, \<open>operandTypes.size() - 1\<close> wraps around and the loop reads out of
  range.
\<close>

definition verifyBroadcastableShape :: "int \<Rightarrow> Type list \<Rightarrow> bool \<Rightarrow> Error + Verification" where
  "verifyBroadcastableShape kDynamic operandTypes emitDiagnostic =
     (if operandTypes = [] then Inl (AssertionFailure ''Invalid index!'')
      else Inr (verifyCompatibleOperandBroadcast kDynamic (butlast operandTypes)
                  (last operandTypes) emitDiagnostic))"

definition checkBroadcastableShape :: "int \<Rightarrow> Type list \<Rightarrow> Error + Verification" where
  "checkBroadcastableShape kDynamic operandTypes =
     verifyBroadcastableShape kDynamic operandTypes False"

text \<open>
  \<open>verifyUnitStrideInnerLoop\<close> (lines 83-117).  \<open>getStridesAndOffset\<close> is MLIR's and is a
  parameter.  The source declares \<open>strides\<close> once, before the loop, and passes it by
  reference at every operand, so the parameter receives the current content of the vector
  and returns \<open>None\<close> on failure or the new content together with the offset.  The loop
  index \<open>idx\<close> and the vector are the state of the loop.  An operand that is shaped but
  not a memref makes \<open>cast<MemRefType>\<close> abort.
\<close>

fun unitStrideLoop ::
  "(Type \<Rightarrow> int list \<Rightarrow> (int list \<times> int) option) \<Rightarrow> bool \<Rightarrow> nat \<Rightarrow> int list \<Rightarrow> Type list
   \<Rightarrow> Error + Verification" where
  "unitStrideLoop getStridesAndOffset emitDiagnostic idx strides [] = Inr (success, [])"
| "unitStrideLoop getStridesAndOffset emitDiagnostic idx strides (operandType # rest) =
     (if \<not> isaShapedType operandType then Inr (success, [])
      else if \<not> isaMemRefType operandType
      then Inl (AssertionFailure ''cast<Ty>() argument of incompatible type!'')
      else case getStridesAndOffset operandType strides of
             None \<Rightarrow>
               if emitDiagnostic then Inr (failure, [FailedToComputeStrides idx])
               else Inr (failure, [])
           | Some (strides', offset) \<Rightarrow>
               if strides' = [] then Inr (failure, [])
               else if last strides' \<noteq> 1
               then if emitDiagnostic then Inr (failure, [NonUnitStride idx])
                    else Inr (failure, [])
               else unitStrideLoop getStridesAndOffset emitDiagnostic (Suc idx) strides' rest)"

definition verifyUnitStrideInnerLoop ::
  "(Type \<Rightarrow> int list \<Rightarrow> (int list \<times> int) option) \<Rightarrow> Type list \<Rightarrow> bool \<Rightarrow> Error + Verification" where
  "verifyUnitStrideInnerLoop getStridesAndOffset operandTypes emitDiagnostic =
     unitStrideLoop getStridesAndOffset emitDiagnostic 0 [] operandTypes"

definition checkUnitStrideInnerLoop ::
  "(Type \<Rightarrow> int list \<Rightarrow> (int list \<times> int) option) \<Rightarrow> Type list \<Rightarrow> Error + Verification" where
  "checkUnitStrideInnerLoop getStridesAndOffset operandTypes =
     verifyUnitStrideInnerLoop getStridesAndOffset operandTypes False"

section \<open>Concrete operations\<close>

text \<open>
  A matrix multiplication \<open>C[m,n] += A[m,k] * B[k,n]\<close> as a \<open>linalg.generic\<close> marked
  \<open>tpp.matmul\<close>, with the element types of the three operands and the three extents.
\<close>

definition gemm :: "Type \<Rightarrow> Type \<Rightarrow> Type \<Rightarrow> int \<Rightarrow> int \<Rightarrow> int \<Rightarrow> GenericOp" where
  "gemm elemA elemB elemC m k n =
     \<lparr>resultTypes = [RankedTensorType [m, n] elemC],
      inputs = [OpOperand 0 (RankedTensorType [m, k] elemA),
                OpOperand 1 (RankedTensorType [k, n] elemB)],
      outputs = [OpOperand 2 (RankedTensorType [m, n] elemC)],
      indexingMaps = [''(m, n, k) -> (m, k)'', ''(m, n, k) -> (k, n)'', ''(m, n, k) -> (m, n)''],
      iteratorTypes = [''parallel'', ''parallel'', ''reduction''],
      doc = [],
      libraryCall = ''tpp.matmul'',
      region = ''mulf, addf''\<rparr>"

text \<open>
  An instance of \<open>getStridesAndOffset\<close> for the examples: a memref with an explicit strided
  layout yields the strides and the offset of the layout; any other layout or type fails.
  Like MLIR's function, it appends the strides to the vector it is given and does not clear
  the vector first.
\<close>

fun stridedLayoutStrides :: "Type \<Rightarrow> int list \<Rightarrow> (int list \<times> int) option" where
  "stridedLayoutStrides (MemRefType s e (StridedLayout layoutStrides layoutOffset)) strides =
     Some (strides @ layoutStrides, layoutOffset)"
| "stridedLayoutStrides t strides = None"

section \<open>Reading the rewriter's log\<close>

text \<open>
  The pads that the log creates, in order: each with its result type, its source, its fill
  value and its \<open>nofold\<close> flag, the arguments of \<open>createPadHighOp\<close>.
\<close>

type_synonym PadHigh = "Type \<times> Value \<times> Value \<times> bool"

fun createdPads :: "PatternRewriter \<Rightarrow> PadHigh list" where
  "createdPads [] = []"
| "createdPads (Create (PadHighOp t src pad nofold) # es) = (t, src, pad, nofold) # createdPads es"
| "createdPads (e # es) = createdPads es"

definition padSource :: "PadHigh \<Rightarrow> Value" where
  "padSource p = fst (snd p)"

definition padValue :: "PadHigh \<Rightarrow> Value" where
  "padValue p = fst (snd (snd p))"

definition padNofold :: "PadHigh \<Rightarrow> bool" where
  "padNofold p = snd (snd (snd p))"

text \<open>The \<open>linalg.generic\<close> operations that the log creates.\<close>

fun createdGenerics :: "PatternRewriter \<Rightarrow> GenericOp list" where
  "createdGenerics [] = []"
| "createdGenerics (CreateGeneric g # es) = g # createdGenerics es"
| "createdGenerics (e # es) = createdGenerics es"

text \<open>The rewriter after a run of the pattern; the unchanged one when the run aborted.\<close>

definition rewriterAfter ::
  "PatternRewriter \<Rightarrow> Error + (LogicalResult \<times> PatternRewriter) \<Rightarrow> PatternRewriter" where
  "rewriterAfter rewriter r = (case r of Inl e \<Rightarrow> rewriter | Inr (res, rewriter') \<Rightarrow> rewriter')"

text \<open>
  The result type that the builder of \<open>tensor.extract_slice\<close> infers has the static sizes
  as its shape.
\<close>

definition extractResultShape :: "ExtractSliceOp \<Rightarrow> int list" where
  "extractResultShape e = staticSizes e"

text \<open>
  The state in which the loop of \<open>verifyUnitStrideInnerLoop\<close> arrives behind a prefix of the
  operands: \<open>Some\<close> of the content of \<open>strides\<close> when every operand of the prefix is a memref
  that passes the three tests, \<open>None\<close> when the loop has returned before.
\<close>

fun stridesAfter ::
  "(Type \<Rightarrow> int list \<Rightarrow> (int list \<times> int) option) \<Rightarrow> int list \<Rightarrow> Type list \<Rightarrow> int list option" where
  "stridesAfter getStridesAndOffset strides [] = Some strides"
| "stridesAfter getStridesAndOffset strides (operandType # rest) =
     (if \<not> isaMemRefType operandType then None
      else case getStridesAndOffset operandType strides of
             None \<Rightarrow> None
           | Some (strides', offset) \<Rightarrow>
               if strides' \<noteq> [] \<and> last strides' = 1
               then stridesAfter getStridesAndOffset strides' rest
               else None)"

section \<open>Basic facts\<close>

lemma bindE_Inr_iff: "bindE m f = Inr y \<longleftrightarrow> (\<exists>x. m = Inr x \<and> f x = Inr y)"
  by (cases m) (simp_all add: bindE_def)

lemma createdPads_append: "createdPads (xs @ ys) = createdPads xs @ createdPads ys"
  by (induction xs rule: createdPads.induct) simp_all

lemma padSIMDDimension_log:
  assumes "padSIMDDimension rewriter operands simdDim = Inr (rewriter1, operands1)"
  shows "\<exists>ev. rewriter1 = rewriter @ ev \<and> list_all (\<lambda>v. \<not> padNofold v) (createdPads ev)"
  using assms
  by (auto simp: padSIMDDimension_def bindE_Inr_iff Let_def padNofold_def split: if_splits)

lemma padParallelDimension_log:
  assumes "padParallelDimension rewriter operands parallelDim = Inr (rewriter1, operands1)"
  shows "\<exists>ev. rewriter1 = rewriter @ ev \<and> list_all (\<lambda>v. \<not> padNofold v) (createdPads ev)"
  using assms
  by (auto simp: padParallelDimension_def bindE_Inr_iff Let_def padNofold_def split: if_splits)

text \<open>What a successful run of \<open>padDimensions\<close> has done.\<close>

lemma padDimensions_success:
  assumes "padDimensions rewriter linalgOp = Inr (success, rewriter')"
  shows "\<exists>a b c rewriter1 operands1 rewriter2 operands2.
           getOperand linalgOp 0 = Inr a \<and> getOperand linalgOp 1 = Inr b \<and>
           getOperand linalgOp 2 = Inr c \<and>
           length (ShapedType_getShape (getType c)) = 2 \<and>
           \<not> isCompliant (ShapedType_getShape (getType c) ! 1)
               (ShapedType_getShape (getType c) ! 0) \<and>
           padSIMDDimension rewriter \<lparr>opA = a, opB = b, opC = c\<rparr>
             (ShapedType_getShape (getType c) ! 1) = Inr (rewriter1, operands1) \<and>
           padParallelDimension rewriter1 operands1 (ShapedType_getShape (getType c) ! 0)
             = Inr (rewriter2, operands2) \<and>
           rewriter' = rewriter2 @
             [CreateGeneric (createReplacementOp linalgOp operands2),
              CreateExtractSlice (createExtractSlice (ShapedType_getShape (getType c))
                                    (createReplacementOp linalgOp operands2)),
              ReplaceOp linalgOp (createExtractSlice (ShapedType_getShape (getType c))
                                    (createReplacementOp linalgOp operands2))]"
  using assms unfolding padDimensions_def
  by (auto simp: bindE_Inr_iff Let_def split: if_splits prod.splits)

lemma padDimensions_failure:
  assumes "padDimensions rewriter linalgOp = Inr (failure, rewriter')"
  shows "rewriter' = rewriter"
  using assms unfolding padDimensions_def
  by (auto simp: bindE_Inr_iff Let_def split: if_splits prod.splits)

lemma matchAndRewrite_cases:
  "matchAndRewrite h1 h2 h3 rewriter linalgOp = Inr (failure, rewriter) \<or>
   matchAndRewrite h1 h2 h3 rewriter linalgOp = padDimensions rewriter linalgOp"
  by (simp add: matchAndRewrite_def)

lemma createExtractSlice_fields:
  "staticSizes (createExtractSlice shapeC g) = shapeC"
  "staticOffsets (createExtractSlice shapeC g) = replicate (length shapeC) 0"
  "staticStrides (createExtractSlice shapeC g) = replicate (length shapeC) 1"
  "sliceSource (createExtractSlice shapeC g) = g"
  by (simp_all add: createExtractSlice_def Let_def map_nth map_replicate_const)

text \<open>
  The fill values as the two padding functions choose them.  The SIMD step pads C with the
  zero of C's element type and B with the one of B's element type.  The parallel step pads
  C likewise, and pads A with the one of \<^emph>\<open>B's\<close> element type (lines 131-134 read
  \<open>operands.B\<close>).
\<close>

lemma padSIMDDimension_fills:
  assumes "padSIMDDimension rewriter operands simdDim = Inr (rewriter1, operands1)"
    and "simdDim smod 16 \<noteq> 0"
  shows "\<exists>typeC typeB.
           opC operands1
             = PadHighOp typeC (opC operands)
                 (ConstantOp (ShapedType_getElementType (getType (opC operands)))
                    (getZeroAttr (ShapedType_getElementType (getType (opC operands))))) False \<and>
           opB operands1
             = PadHighOp typeB (opB operands)
                 (ConstantOp (ShapedType_getElementType (getType (opB operands)))
                    (getOneAttr (ShapedType_getElementType (getType (opB operands))))) False \<and>
           opA operands1 = opA operands"
  using assms
  by (auto simp: padSIMDDimension_def bindE_Inr_iff Let_def cast_ShapedType_def
        split: if_splits)

lemma padParallelDimension_fills:
  assumes "padParallelDimension rewriter operands parallelDim = Inr (rewriter1, operands1)"
    and "parallelDim smod 6 \<noteq> 0"
  shows "\<exists>typeC typeA.
           opC operands1
             = PadHighOp typeC (opC operands)
                 (ConstantOp (ShapedType_getElementType (getType (opC operands)))
                    (getZeroAttr (ShapedType_getElementType (getType (opC operands))))) False \<and>
           opA operands1
             = PadHighOp typeA (opA operands)
                 (ConstantOp (ShapedType_getElementType (getType (opB operands)))
                    (getOneAttr (ShapedType_getElementType (getType (opB operands))))) False \<and>
           opB operands1 = opB operands"
  using assms
  by (auto simp: padParallelDimension_def bindE_Inr_iff Let_def cast_ShapedType_def
        split: if_splits)

lemma isaMemRefType_shaped: "isaMemRefType t \<Longrightarrow> isaShapedType t"
  by (cases t) simp_all

lemma unitStrideLoop_reach:
  "stridesAfter g s pre = Some s' \<Longrightarrow>
   unitStrideLoop g emit idx s (pre @ rest) = unitStrideLoop g emit (idx + length pre) s' rest"
proof (induction pre arbitrary: s idx)
  case Nil
  then show ?case by simp
next
  case (Cons t pre)
  then show ?case
    by (auto simp: isaMemRefType_shaped split: if_splits option.splits)
qed

lemma verifyUnitStrideInnerLoop_reach:
  "stridesAfter g [] pre = Some s \<Longrightarrow>
   verifyUnitStrideInnerLoop g (pre @ rest) emit = unitStrideLoop g emit (length pre) s rest"
  using unitStrideLoop_reach [of g "[]" pre s emit 0 rest]
  by (simp add: verifyUnitStrideInnerLoop_def)

lemma getBroadcastedShape_Nil: "getBroadcastedShape kDynamic shape [] = (True, shape)"
  by (cases "rev shape") (simp_all add: getBroadcastedShape_def)

lemma isCompatibleInferredReturnShape_iff:
  "isCompatibleInferredReturnShape kDynamic inferred existing \<longleftrightarrow>
     length inferred = length existing \<and>
     (\<forall>i<length inferred. inferred ! i = existing ! i \<or> inferred ! i = kDynamic \<or>
        existing ! i = kDynamic \<or> inferred ! i = 1)"
  by (auto simp: isCompatibleInferredReturnShape_def list_all_length isCompatible_def
        isDynamic_def)

lemma verifyCompatibleOperandBroadcast_success_iff:
  assumes "inputTypes \<noteq> []"
  shows "fst (verifyCompatibleOperandBroadcast kDynamic inputTypes outputType emitDiagnostic)
           = success \<longleftrightarrow>
         (\<exists>resultShape.
            broadcastInputs kDynamic (getShape (hd inputTypes)) inputTypes = Some resultShape \<and>
            isCompatibleInferredReturnShape kDynamic resultShape
              (take_back (length resultShape) (getShape outputType)))"
  using assms
  by (auto simp: verifyCompatibleOperandBroadcast_def getBroadcastedShape_Nil Let_def
        split: option.splits)

section \<open>Rounding\<close>

text \<open>
  A value with at most \<open>p\<close> significant bits is not changed by rounding to precision \<open>p\<close>,
  and rounding moves a positive value by at most half a unit in the last place.
\<close>

lemma round_half_even_of_int: "round_half_even (of_int n) = n"
  by (simp add: round_half_even_def)

lemma round_half_even_error: "\<bar>of_int (round_half_even y) - y\<bar> \<le> 1 / 2"
proof -
  have "of_int \<lfloor>y\<rfloor> \<le> y" "y < of_int \<lfloor>y\<rfloor> + 1"
    by linarith+
  then show ?thesis
    by (auto simp: round_half_even_def Let_def)
qed

lemma floor_log2_le:
  assumes "0 < x"
  shows "power_int 2 (floor_log2 x) \<le> x"
proof (cases "1 \<le> x")
  case True
  then have n: "0 < \<lfloor>x\<rfloor>" by simp
  then have b: "0 \<le> bitlen \<lfloor>x\<rfloor> - 1"
    by (simp add: bitlen_alt_def)
  from bitlen_bounds [OF n] have "2 ^ nat (bitlen \<lfloor>x\<rfloor> - 1) \<le> \<lfloor>x\<rfloor>"
    by simp
  then have "(of_int (2 ^ nat (bitlen \<lfloor>x\<rfloor> - 1)) :: rat) \<le> of_int \<lfloor>x\<rfloor>"
    by (simp only: of_int_le_iff)
  also have "\<dots> \<le> x" by simp
  finally have "(2 :: rat) ^ nat (bitlen \<lfloor>x\<rfloor> - 1) \<le> x" by simp
  with True b show ?thesis
    by (simp add: floor_log2_def power_int_nonneg_exp)
next
  case False
  let ?N = "\<lceil>1 / x\<rceil> - 1"
  from assms False have "1 < 1 / x" by simp
  then have N: "0 < ?N" by (simp add: less_ceiling_iff)
  from bitlen_bounds [OF N] have "?N < 2 ^ nat (bitlen ?N)" by simp
  then have "\<lceil>1 / x\<rceil> \<le> 2 ^ nat (bitlen ?N)" by simp
  then have "1 / x \<le> 2 ^ nat (bitlen ?N)" by (simp add: ceiling_le_iff)
  with assms have "1 / 2 ^ nat (bitlen ?N) \<le> x" by (simp add: field_simps)
  with False show ?thesis
    by (simp add: floor_log2_def power_int_minus_divide power_int_nonneg_exp bitlen_nonneg)
qed

lemma floor_log2_gt:
  assumes "0 < x"
  shows "x < power_int 2 (floor_log2 x + 1)"
proof (cases "1 \<le> x")
  case True
  then have n: "0 < \<lfloor>x\<rfloor>" by simp
  then have b: "0 \<le> bitlen \<lfloor>x\<rfloor>"
    by (simp add: bitlen_nonneg)
  from bitlen_bounds [OF n] have "\<lfloor>x\<rfloor> + 1 \<le> 2 ^ nat (bitlen \<lfloor>x\<rfloor>)"
    by simp
  then have "(of_int (\<lfloor>x\<rfloor> + 1) :: rat) \<le> of_int (2 ^ nat (bitlen \<lfloor>x\<rfloor>))"
    by (simp only: of_int_le_iff)
  moreover have "x < of_int (\<lfloor>x\<rfloor> + 1)" by linarith
  ultimately have "x < (2 :: rat) ^ nat (bitlen \<lfloor>x\<rfloor>)" by simp
  with True b show ?thesis
    by (simp add: floor_log2_def power_int_nonneg_exp)
next
  case False
  let ?N = "\<lceil>1 / x\<rceil> - 1"
  from assms False have "1 < 1 / x" by simp
  then have N: "0 < ?N" by (simp add: less_ceiling_iff)
  then have b: "0 \<le> bitlen ?N - 1" by (simp add: bitlen_alt_def)
  from bitlen_bounds [OF N] have "2 ^ nat (bitlen ?N - 1) \<le> ?N" by simp
  then have "(of_int (2 ^ nat (bitlen ?N - 1)) :: rat) \<le> of_int ?N"
    by (simp only: of_int_le_iff)
  moreover have "of_int ?N < 1 / x" by linarith
  ultimately have "(2 :: rat) ^ nat (bitlen ?N - 1) < 1 / x" by simp
  with assms have "x < 1 / 2 ^ nat (bitlen ?N - 1)" by (simp add: field_simps)
  moreover have "power_int (2 :: rat) (- bitlen ?N + 1) = 1 / 2 ^ nat (bitlen ?N - 1)"
    using b power_int_minus_divide [of "2 :: rat" "bitlen ?N - 1"]
    by (simp add: power_int_nonneg_exp)
  ultimately show ?thesis using False
    by (simp add: floor_log2_def)
qed

lemma floor_log2_less:
  assumes "0 < x" and "x < power_int 2 k"
  shows "floor_log2 x < k"
proof (rule ccontr)
  assume "\<not> floor_log2 x < k"
  then have "k \<le> floor_log2 x" by simp
  then have "power_int (2 :: rat) k \<le> power_int 2 (floor_log2 x)"
    by (intro power_int_increasing) simp_all
  with floor_log2_le [OF assms(1)] assms(2) show False by simp
qed

lemma round_to_precision_pos:
  assumes "0 < x"
  shows "round_to_precision p x =
           of_int (round_half_even (x / power_int 2 (floor_log2 x - (int p - 1))))
             * power_int 2 (floor_log2 x - (int p - 1))"
  using assms by (simp add: round_to_precision_def Let_def)

lemma round_to_precision_exact:
  assumes "0 < m" and "m < 2 ^ p"
  shows "round_to_precision p (of_int m * power_int 2 k) = of_int m * power_int 2 k"
proof -
  let ?x = "of_int m * power_int 2 k :: rat"
  let ?e = "floor_log2 ?x - (int p - 1)"
  have pos: "0 < ?x" using assms(1) by (simp add: zero_less_mult_iff zero_less_power_int)
  have "(of_int m :: rat) < 2 ^ p"
    using assms(2) by (metis of_int_less_iff of_int_numeral of_int_power)
  then have "?x < 2 ^ p * power_int 2 k"
    by (simp add: zero_less_power_int)
  also have "\<dots> = power_int 2 (int p + k)"
    by (simp add: power_int_add)
  finally have "floor_log2 ?x < int p + k"
    using floor_log2_less [OF pos] by simp
  then have "?e \<le> k" by simp
  then obtain j :: nat where j: "k = ?e + int j"
    by (metis add.commute le_iff_add zero_le_imp_eq_int zle_iff_zadd)
  have "?x / power_int 2 ?e = of_int m * (power_int 2 k / power_int 2 ?e)"
    by simp
  also have "power_int (2 :: rat) k / power_int 2 ?e = power_int 2 (k - ?e)"
    by (simp add: power_int_diff)
  also have "k - ?e = int j" using j by simp
  finally have scaled: "?x / power_int 2 ?e = of_int (m * 2 ^ j)"
    by simp
  have "round_to_precision p ?x
          = of_int (round_half_even (?x / power_int 2 ?e)) * power_int 2 ?e"
    by (rule round_to_precision_pos [OF pos])
  also have "\<dots> = of_int (m * 2 ^ j) * power_int 2 ?e"
    by (simp only: scaled round_half_even_of_int)
  also have "\<dots> = of_int m * (power_int 2 (int j) * power_int 2 ?e)"
    by simp
  also have "power_int (2 :: rat) (int j) * power_int 2 ?e = power_int 2 (int j + ?e)"
    by (simp add: power_int_add)
  also have "int j + ?e = k" using j by simp
  finally show ?thesis .
qed

lemma round_to_precision_of_int:
  assumes "0 \<le> n" and "n < 2 ^ p"
  shows "round_to_precision p (of_int n) = of_int n"
proof (cases "n = 0")
  case True
  then show ?thesis by (simp add: round_to_precision_def)
next
  case False
  with assms have "0 < n" by simp
  from round_to_precision_exact [OF this assms(2), of 0] show ?thesis by simp
qed

lemma round_to_precision_error:
  assumes "0 < x"
  shows "\<bar>round_to_precision p x - x\<bar> \<le> power_int 2 (floor_log2 x - int p)"
proof -
  let ?e = "floor_log2 x - (int p - 1)"
  let ?y = "x / power_int 2 ?e"
  have rtp: "round_to_precision p x = of_int (round_half_even ?y) * power_int 2 ?e"
    by (rule round_to_precision_pos [OF assms])
  have "x = ?y * power_int 2 ?e" by simp
  then have "round_to_precision p x - x = (of_int (round_half_even ?y) - ?y) * power_int 2 ?e"
    unfolding rtp by (simp only: left_diff_distrib)
  then have "\<bar>round_to_precision p x - x\<bar>
      = \<bar>of_int (round_half_even ?y) - ?y\<bar> * power_int 2 ?e"
    by (simp add: abs_mult power_int_abs)
  also have "\<dots> \<le> 1 / 2 * power_int 2 ?e"
    by (intro mult_right_mono round_half_even_error) (simp add: zero_le_power_int)
  also have "\<dots> = power_int 2 (?e - 1)"
    by (simp add: power_int_diff)
  also have "?e - 1 = floor_log2 x - int p" by simp
  finally show ?thesis .
qed

section \<open>The padding targets below \<open>2\<^sup>2\<^sup>4\<close>\<close>

text \<open>
  Single precision represents every extent from 0 up to \<open>2\<^sup>2\<^sup>4\<close> exactly.  There the
  floating-point computation of lines 78 and 116 yields the next multiple of 16 and of 6.
\<close>

lemma int64_of_double_of_int:
  assumes "0 \<le> n" and "n < 2 ^ 63"
  shows "int64_of_double (of_int n) = Inr n"
  using assms by (simp add: int64_of_double_def)

lemma float_of_int64_exact:
  assumes "0 \<le> n" and "n < 2 ^ 24"
  shows "float_of_int64 n = of_int n"
  using round_to_precision_of_int [OF assms(1), of 24] assms(2)
  by (simp add: float_of_int64_def)

lemma double_mul_exact:
  assumes "0 \<le> a" and "0 \<le> b" and "a * b < 2 ^ 53"
  shows "double_mul (of_int a) (of_int b) = of_int (a * b)"
proof -
  have "0 \<le> a * b" using assms by simp
  from round_to_precision_of_int [OF this, of 53] assms(3) show ?thesis
    by (simp add: double_mul_def)
qed

lemma paddedSimd_exact:
  assumes "0 \<le> c" and "c < 2 ^ 24"
  shows "paddedSimd c = Inr (16 * ((c + 15) div 16))"
proof -
  have div16: "double_div (of_int c) 16 = of_int c / 16"
  proof (cases "c = 0")
    case True
    then show ?thesis by (simp add: double_div_def round_to_precision_def)
  next
    case False
    with assms have "0 < c" "c < 2 ^ 53" by simp_all
    from round_to_precision_exact [OF this, of "- 4"] show ?thesis
      by (simp add: double_div_def power_int_minus_divide)
  qed
  have "\<lceil>(of_int c :: rat) / 16\<rceil> = (c + 15) div 16"
  proof (rule ceiling_unique)
    have "16 * ((c + 15) div 16) - 16 < c" "c \<le> 16 * ((c + 15) div 16)"
      by presburger+
    then have "(of_int (16 * ((c + 15) div 16) - 16) :: rat) < of_int c"
        "(of_int c :: rat) \<le> of_int (16 * ((c + 15) div 16))"
      by (simp_all only: of_int_less_iff of_int_le_iff)
    then show "of_int ((c + 15) div 16) - 1 < (of_int c :: rat) / 16"
        "(of_int c :: rat) / 16 \<le> of_int ((c + 15) div 16)"
      by simp_all
  qed
  then have ceil: "std_ceil (of_int c / 16) = of_int ((c + 15) div 16)"
    by (simp add: std_ceil_def)
  have k: "0 \<le> (c + 15) div 16" "16 * ((c + 15) div 16) < 2 ^ 53"
      "16 * ((c + 15) div 16) < 2 ^ 63"
    using assms by simp_all
  have "double_mul 16 (of_int ((c + 15) div 16)) = of_int (16 * ((c + 15) div 16))"
    using double_mul_exact [of 16 "(c + 15) div 16"] k by simp
  with k show ?thesis
    using int64_of_double_of_int [of "16 * ((c + 15) div 16)"]
    by (simp add: paddedSimd_def float_of_int64_exact [OF assms] div16 ceil del: of_int_mult)
qed

lemma six_div_cases:
  fixes r :: int
  assumes "0 \<le> r"
  obtains q where "r = 6 * q" "0 \<le> q"
  | q j where "r = 6 * q + j" "0 \<le> q" "1 \<le> j" "j \<le> 5"
proof (cases "r mod 6 = 0")
  case True
  with assms that(1) [of "r div 6"] show ?thesis by auto
next
  case False
  have "r = 6 * (r div 6) + r mod 6" by simp
  moreover have "0 \<le> r div 6" using assms by simp
  moreover have "1 \<le> r mod 6" "r mod 6 \<le> 5" using False by presburger+
  ultimately show ?thesis using that(2) by blast
qed

lemma std_ceil_double_div_6:
  assumes "0 \<le> r" and "r < 2 ^ 24"
  shows "std_ceil (double_div (of_int r) 6) = of_int ((r + 5) div 6)"
  using assms(1)
proof (cases rule: six_div_cases)
  case (1 q)
  have "double_div (of_int r) 6 = of_int q"
  proof -
    have "q < 2 ^ 53" using 1 assms(2) by simp
    from round_to_precision_of_int [OF 1(2) this] 1(1) show ?thesis
      by (simp add: double_div_def)
  qed
  moreover have "(r + 5) div 6 = q" using 1 by simp
  ultimately show ?thesis by (simp add: std_ceil_def)
next
  case (2 q j)
  let ?x = "of_int r / 6 :: rat"
  have pos: "0 < ?x" using 2 by simp
  have lo: "of_int q + 1 / 6 \<le> ?x"
  proof -
    have "6 * q + 1 \<le> r" using 2 by simp
    then have "(of_int (6 * q + 1) :: rat) \<le> of_int r" by (simp only: of_int_le_iff)
    then show ?thesis by simp
  qed
  have hi: "?x \<le> of_int q + 5 / 6"
  proof -
    have "r \<le> 6 * q + 5" using 2 by simp
    then have "(of_int r :: rat) \<le> of_int (6 * q + 5)" by (simp only: of_int_le_iff)
    then show ?thesis by simp
  qed
  have "(of_int r :: rat) < of_int (2 ^ 24)"
    using assms(2) by (simp only: of_int_less_iff)
  then have "?x < power_int 2 22" by simp
  from floor_log2_less [OF pos this] have "floor_log2 ?x - 53 \<le> - 31" by simp
  then have "power_int (2 :: rat) (floor_log2 ?x - 53) \<le> power_int 2 (- 31)"
    by (intro power_int_increasing) simp_all
  with round_to_precision_error [OF pos, of 53]
  have err: "\<bar>double_div (of_int r) 6 - ?x\<bar> \<le> 1 / 2 ^ 31"
    by (simp add: double_div_def power_int_minus_divide)
  have small: "(1 :: rat) / 2 ^ 31 < 1 / 6" by simp
  from err have near: "?x - 1 / 2 ^ 31 \<le> double_div (of_int r) 6"
      "double_div (of_int r) 6 \<le> ?x + 1 / 2 ^ 31"
    by (simp_all only: abs_le_iff) linarith+
  have "\<lceil>double_div (of_int r) 6\<rceil> = q + 1"
  proof (rule ceiling_unique)
    have "of_int q < double_div (of_int r) 6"
      using near(1) lo small by linarith
    then show "of_int (q + 1) - 1 < double_div (of_int r) 6"
      by simp
    have "double_div (of_int r) 6 \<le> of_int q + 1"
      using near(2) hi small by linarith
    then show "double_div (of_int r) 6 \<le> of_int (q + 1)"
      by simp
  qed
  moreover have "(r + 5) div 6 = q + 1" using 2 by simp
  ultimately show ?thesis by (simp add: std_ceil_def)
qed

lemma paddedParallel_exact:
  assumes "0 \<le> r" and "r < 2 ^ 24"
  shows "paddedParallel r = Inr (6 * ((r + 5) div 6))"
proof -
  have k: "0 \<le> (r + 5) div 6" "6 * ((r + 5) div 6) < 2 ^ 53" "6 * ((r + 5) div 6) < 2 ^ 63"
    using assms by simp_all
  have "double_mul 6 (of_int ((r + 5) div 6)) = of_int (6 * ((r + 5) div 6))"
    using double_mul_exact [of 6 "(r + 5) div 6"] k by simp
  with k show ?thesis
    using int64_of_double_of_int [of "6 * ((r + 5) div 6)"]
    by (simp add: paddedParallel_def float_of_int64_exact [OF assms]
          std_ceil_double_div_6 [OF assms] del: of_int_mult)
qed

lemma padded_targets_in_exact_range:
  assumes "0 \<le> c" and "c < 2 ^ 24" and "0 \<le> r" and "r < 2 ^ 24"
  shows "\<exists>s p. paddedSimd c = Inr s \<and> s mod 16 = 0 \<and> s - 16 < c \<and> c \<le> s \<and>
               paddedParallel r = Inr p \<and> p mod 6 = 0 \<and> p - 6 < r \<and> r \<le> p"
proof -
  have "16 * ((c + 15) div 16) - 16 < c" "c \<le> 16 * ((c + 15) div 16)"
    "6 * ((r + 5) div 6) - 6 < r" "r \<le> 6 * ((r + 5) div 6)"
    by presburger+
  then show ?thesis
    by (simp add: paddedSimd_exact [OF assms(1,2)] paddedParallel_exact [OF assms(3,4)])
qed

section \<open>The shapes after the rewrite\<close>

lemma smod_nonneg:
  fixes x n :: int
  assumes "0 \<le> x" and "0 < n"
  shows "x smod n = x mod n"
  using assms by (simp add: signed_modulo_int_def signed_divide_int_def sgn_if)

lemma padDimensions_success_shapes:
  assumes "padDimensions rewriter linalgOp = Inr (success, rewriter')"
  shows "\<exists>a b c.
           getOperand linalgOp 0 = Inr a \<and> getOperand linalgOp 1 = Inr b \<and>
           getOperand linalgOp 2 = Inr c \<and>
           isaShapedType (getType a) \<and> isaShapedType (getType b) \<and> isaShapedType (getType c) \<and>
           length (ShapedType_getShape (getType a)) = 2 \<and>
           length (ShapedType_getShape (getType b)) = 2 \<and>
           length (ShapedType_getShape (getType c)) = 2 \<and>
           ShapedType_getShape (getType c) ! 1 = ShapedType_getShape (getType b) ! 1 \<and>
           ShapedType_getShape (getType c) ! 0 = ShapedType_getShape (getType a) ! 0 \<and>
           ShapedType_getShape (getType a) ! 1 = ShapedType_getShape (getType b) ! 0"
  using assms unfolding padDimensions_def
  by (auto simp: bindE_Inr_iff Let_def split: if_splits prod.splits)

lemma list_of_length_two:
  assumes "length xs = 2"
  shows "xs = [xs ! 0, xs ! 1]"
  using assms by (cases xs; cases "tl xs") auto

text \<open>The shapes after the SIMD step, for a well-shaped triple and an extent below \<open>2\<^sup>2\<^sup>4\<close>.\<close>

lemma padSIMDDimension_shapes:
  assumes "padSIMDDimension rewriter operands cdim = Inr (rewriter1, operands1)"
    and "isaShapedType (getType (opA operands))"
    and "isaShapedType (getType (opB operands))"
    and "isaShapedType (getType (opC operands))"
    and "ShapedType_getShape (getType (opA operands)) = [r, k]"
    and "ShapedType_getShape (getType (opB operands)) = [k, cdim]"
    and "ShapedType_getShape (getType (opC operands)) = [r, cdim]"
    and "0 \<le> cdim" and "cdim < 2 ^ 24"
  shows "isaShapedType (getType (opA operands1)) \<and>
         isaShapedType (getType (opB operands1)) \<and>
         isaShapedType (getType (opC operands1)) \<and>
         ShapedType_getShape (getType (opA operands1)) = [r, k] \<and>
         ShapedType_getShape (getType (opB operands1)) = [k, 16 * ((cdim + 15) div 16)] \<and>
         ShapedType_getShape (getType (opC operands1)) = [r, 16 * ((cdim + 15) div 16)]"
proof (cases "cdim smod 16 = 0")
  case True
  with assms(8) have "cdim mod 16 = 0" by (simp add: smod_nonneg)
  then have "16 * ((cdim + 15) div 16) = cdim" by presburger
  with True assms show ?thesis by (simp add: padSIMDDimension_def)
next
  case False
  with assms show ?thesis
    by (auto simp: padSIMDDimension_def bindE_Inr_iff Let_def cast_ShapedType_def elemAt_def
          paddedSimd_exact)
qed

lemma padParallelDimension_shapes:
  assumes "padParallelDimension rewriter operands r = Inr (rewriter1, operands1)"
    and "isaShapedType (getType (opA operands))"
    and "isaShapedType (getType (opB operands))"
    and "isaShapedType (getType (opC operands))"
    and "ShapedType_getShape (getType (opA operands)) = [r, k]"
    and "ShapedType_getShape (getType (opB operands)) = [k, n]"
    and "ShapedType_getShape (getType (opC operands)) = [r, n]"
    and "0 \<le> r" and "r < 2 ^ 24"
  shows "isaShapedType (getType (opA operands1)) \<and>
         isaShapedType (getType (opB operands1)) \<and>
         isaShapedType (getType (opC operands1)) \<and>
         ShapedType_getShape (getType (opA operands1)) = [6 * ((r + 5) div 6), k] \<and>
         ShapedType_getShape (getType (opB operands1)) = [k, n] \<and>
         ShapedType_getShape (getType (opC operands1)) = [6 * ((r + 5) div 6), n]"
proof (cases "r smod 6 = 0")
  case True
  with assms(8) have "r mod 6 = 0" by (simp add: smod_nonneg)
  then have "6 * ((r + 5) div 6) = r" by presburger
  with True assms show ?thesis by (simp add: padParallelDimension_def)
next
  case False
  with assms show ?thesis
    by (auto simp: padParallelDimension_def bindE_Inr_iff Let_def cast_ShapedType_def elemAt_def
          paddedParallel_exact)
qed

text \<open>
  The scenario of the specification: for the C shape \<open>(5, 10)\<close> the replacement operation
  works on A of shape \<open>(6, k)\<close>, B of shape \<open>(k, 16)\<close> and C of shape \<open>(6, 16)\<close>.
\<close>

lemma scenario_5_10:
  "map (\<lambda>g. map (\<lambda>v. ShapedType_getShape (getType v)) (inputs g @ outputs g))
     (createdGenerics (rewriterAfter []
        (matchAndRewrite (\<lambda>g. True) (\<lambda>g. True) (\<lambda>g. True) []
           (gemm (FloatType 32) (FloatType 32) (FloatType 32) 5 3 10))))
     = [[[6, 3], [3, 16], [6, 16]]]"
  by code_simp

text \<open>
  For extents below \<open>2\<^sup>2\<^sup>4\<close>, which single precision represents exactly, the rewrite reaches
  the fixed point: the accumulator of the replacement has the shape
  \<open>(6 * ceil(r / 6), 16 * ceil(c / 16))\<close>, and the pattern does not match the replacement.
\<close>

lemma rewrite_reaches_fixed_point_in_exact_range:
  assumes "matchAndRewrite h1 h2 h3 rewriter linalgOp = Inr (success, rewriter')"
    and "getOperand linalgOp 2 = Inr c"
    and "ShapedType_getShape (getType c) = [r, cdim]"
    and "0 \<le> r" and "r < 2 ^ 24" and "0 \<le> cdim" and "cdim < 2 ^ 24"
  shows "\<exists>rewriter2 replacementOp ex c'.
           rewriter' = rewriter2 @ [CreateGeneric replacementOp, CreateExtractSlice ex,
                                    ReplaceOp linalgOp ex] \<and>
           getOperand replacementOp 2 = Inr c' \<and>
           ShapedType_getShape (getType c') = [6 * ((r + 5) div 6), 16 * ((cdim + 15) div 16)] \<and>
           (\<forall>g1 g2 g3 rewriter3.
              matchAndRewrite g1 g2 g3 rewriter3 replacementOp = Inr (failure, rewriter3))"
proof -
  from assms(1) have pd: "padDimensions rewriter linalgOp = Inr (success, rewriter')"
    using matchAndRewrite_cases [of h1 h2 h3 rewriter linalgOp] by auto
  from padDimensions_success_shapes [OF pd] assms(2) obtain a b where
    sh: "isaShapedType (getType a)" "isaShapedType (getType b)" "isaShapedType (getType c)" and
    len: "length (ShapedType_getShape (getType a)) = 2"
         "length (ShapedType_getShape (getType b)) = 2" and
    eq: "ShapedType_getShape (getType c) ! 1 = ShapedType_getShape (getType b) ! 1"
        "ShapedType_getShape (getType c) ! 0 = ShapedType_getShape (getType a) ! 0"
        "ShapedType_getShape (getType a) ! 1 = ShapedType_getShape (getType b) ! 0" and
    ab: "getOperand linalgOp 0 = Inr a" "getOperand linalgOp 1 = Inr b"
    by auto
  define k where "k = ShapedType_getShape (getType b) ! 0"
  have shapeA: "ShapedType_getShape (getType a) = [r, k]"
    using list_of_length_two [OF len(1)] eq assms(3) by (simp add: k_def)
  have shapeB: "ShapedType_getShape (getType b) = [k, cdim]"
    using list_of_length_two [OF len(2)] eq assms(3) by (simp add: k_def)
  from padDimensions_success [OF pd] ab assms(2,3) obtain rewriter1 operands1 rewriter2 operands2
    where simd: "padSIMDDimension rewriter \<lparr>opA = a, opB = b, opC = c\<rparr> cdim
                   = Inr (rewriter1, operands1)"
      and par: "padParallelDimension rewriter1 operands1 r = Inr (rewriter2, operands2)"
      and rw: "rewriter' = rewriter2 @
             [CreateGeneric (createReplacementOp linalgOp operands2),
              CreateExtractSlice (createExtractSlice [r, cdim]
                                    (createReplacementOp linalgOp operands2)),
              ReplaceOp linalgOp (createExtractSlice [r, cdim]
                                    (createReplacementOp linalgOp operands2))]"
    by auto
  let ?S = "16 * ((cdim + 15) div 16)"
  let ?P = "6 * ((r + 5) div 6)"
  from padSIMDDimension_shapes [OF simd _ _ _ _ _ _ assms(6,7), of r k] sh shapeA shapeB assms(3)
  have s1: "isaShapedType (getType (opA operands1))" "isaShapedType (getType (opB operands1))"
      "isaShapedType (getType (opC operands1))"
      "ShapedType_getShape (getType (opA operands1)) = [r, k]"
      "ShapedType_getShape (getType (opB operands1)) = [k, ?S]"
      "ShapedType_getShape (getType (opC operands1)) = [r, ?S]"
    by simp_all
  from padParallelDimension_shapes [OF par s1 assms(4,5)]
  have s2: "isaShapedType (getType (opA operands2))" "isaShapedType (getType (opB operands2))"
      "isaShapedType (getType (opC operands2))"
      "ShapedType_getShape (getType (opA operands2)) = [?P, k]"
      "ShapedType_getShape (getType (opB operands2)) = [k, ?S]"
      "ShapedType_getShape (getType (opC operands2)) = [?P, ?S]"
    by simp_all
  let ?repl = "createReplacementOp linalgOp operands2"
  have ops: "getOperand ?repl 0 = Inr (opA operands2)" "getOperand ?repl 1 = Inr (opB operands2)"
      "getOperand ?repl 2 = Inr (opC operands2)"
    by (simp_all add: getOperand_def createReplacementOp_def elemAt_def)
  have "0 \<le> ?S" "0 \<le> ?P" using assms(4,6) by simp_all
  then have "isCompliant ?S ?P"
    by (simp add: isCompliant_def smod_nonneg)
  then have nomatch: "padDimensions rewriter3 ?repl = Inr (failure, rewriter3)" for rewriter3
    using ops s2 by (simp add: padDimensions_def bindE_def Let_def)
  have "matchAndRewrite g1 g2 g3 rewriter3 ?repl = Inr (failure, rewriter3)"
    for g1 g2 g3 rewriter3
    using matchAndRewrite_cases [of g1 g2 g3 rewriter3 ?repl] nomatch by auto
  with rw ops(3) s2(6) show ?thesis
    by blast
qed

section \<open>The padding targets\<close>

text \<open>
  Claim C2: for every rank-2 C shape \<open>(r, c)\<close> with non-negative extents the SIMD target
  is a multiple of 16 with \<open>target - 16 < c \<le> target\<close>, and the parallel target is a multiple
  of 6 with \<open>target - 6 < r \<le> target\<close>.  The source rounds the extent to single precision
  before it divides (lines 78 and 116).  Below \<open>2\<^sup>2\<^sup>4\<close> the cast is exact and the claim
  holds (\<open>padded_targets_in_exact_range\<close>); above, an extent can lose its low bits: the SIMD
  target of the extent 33554433 is 33554432 and the parallel target of the extent 100663297
  is 100663296, both smaller than the extent they are to pad.
\<close>

theorem padded_target_below_extent:
  "paddedSimd 33554433 = Inr 33554432 \<and> paddedParallel 100663297 = Inr 100663296"
  by code_simp

section \<open>The fill values\<close>

text \<open>
  Claim C1: every pad of C is filled with the zero of C's element type, the pad of B with
  the one of B's element type, and the pad of A with the one of A's element type.  The
  first two hold (\<open>padSIMDDimension_fills\<close>, \<open>padParallelDimension_fills\<close>); the third does
  not.  For A of element type \<open>i32\<close> and B, C of element type \<open>f32\<close>, with the C shape
  \<open>(5, 16)\<close>, the pads created are the pad of C, filled with the \<open>f32\<close> zero, and the pad of A,
  filled with the \<open>f32\<close> constant 1.0 taken from B's element type.
\<close>

theorem pad_of_A_is_filled_from_element_type_of_B:
  "map (\<lambda>v. (padSource v, padValue v))
     (createdPads (rewriterAfter []
        (padDimensions [] (gemm (IntegerType 32) (FloatType 32) (FloatType 32) 5 3 16)))) =
   [(OpOperand 2 (RankedTensorType [5, 16] (FloatType 32)),
     ConstantOp (FloatType 32) (Some (FloatAttr (FloatType 32) 0))),
    (OpOperand 0 (RankedTensorType [5, 3] (IntegerType 32)),
     ConstantOp (FloatType 32) (Some (FloatAttr (FloatType 32) 1)))]"
  by code_simp

text \<open>The pad of A with the one of A's own element type is not among them.\<close>

theorem pad_of_A_is_filled_from_element_type_of_B_witness:
  "(OpOperand 0 (RankedTensorType [5, 3] (IntegerType 32)),
    ConstantOp (IntegerType 32) (getOneAttr (IntegerType 32)))
   \<notin> set (map (\<lambda>v. (padSource v, padValue v))
       (createdPads (rewriterAfter []
          (padDimensions [] (gemm (IntegerType 32) (FloatType 32) (FloatType 32) 5 3 16)))))"
  using pad_of_A_is_filled_from_element_type_of_B by simp

section \<open>The extraction\<close>

text \<open>
  Claim C3: whenever the pattern rewrites an operation, the extraction it builds after the
  padded matmul has offset 0 and stride 1 in every dimension and the original extents of C
  as its sizes, so its result has the original shape of C whatever padding was added.  The
  rewriter's log ends with the replacement operation, the extraction that reads it, and the
  replacement of the original operation by the extraction.
\<close>

theorem extraction_restores_original_shape:
  assumes "matchAndRewrite hasTensorSemantics hasStaticShape hasTppMark rewriter linalgOp
             = Inr (success, rewriter')"
  shows "\<exists>c ex rewriter2.
           getOperand linalgOp 2 = Inr c \<and>
           rewriter' = rewriter2 @ [CreateGeneric (sliceSource ex), CreateExtractSlice ex,
                                    ReplaceOp linalgOp ex] \<and>
           staticOffsets ex = replicate (length (ShapedType_getShape (getType c))) 0 \<and>
           staticStrides ex = replicate (length (ShapedType_getShape (getType c))) 1 \<and>
           staticSizes ex = ShapedType_getShape (getType c) \<and>
           extractResultShape ex = ShapedType_getShape (getType c)"
proof -
  from assms have "padDimensions rewriter linalgOp = Inr (success, rewriter')"
    using matchAndRewrite_cases [of hasTensorSemantics hasStaticShape hasTppMark rewriter linalgOp]
    by auto
  from padDimensions_success [OF this] obtain c rewriter2 operands2 where
    c: "getOperand linalgOp 2 = Inr c" and
    r: "rewriter' = rewriter2 @
             [CreateGeneric (createReplacementOp linalgOp operands2),
              CreateExtractSlice (createExtractSlice (ShapedType_getShape (getType c))
                                    (createReplacementOp linalgOp operands2)),
              ReplaceOp linalgOp (createExtractSlice (ShapedType_getShape (getType c))
                                    (createReplacementOp linalgOp operands2))]"
    by blast
  let ?ex = "createExtractSlice (ShapedType_getShape (getType c))
               (createReplacementOp linalgOp operands2)"
  have "rewriter' = rewriter2 @ [CreateGeneric (sliceSource ?ex), CreateExtractSlice ?ex,
                                 ReplaceOp linalgOp ?ex]"
    using r by (simp add: createExtractSlice_fields)
  with c show ?thesis
    by (intro exI [of _ c] exI [of _ ?ex] exI [of _ rewriter2])
       (simp add: createExtractSlice_fields extractResultShape_def)
qed

text \<open>The scenario of the specification: C of shape \<open>(5, 10)\<close> is sliced back to \<open>(5, 10)\<close>.\<close>

theorem extraction_restores_original_shape_witness:
  "\<exists>c ex rewriter2.
     getOperand (gemm (FloatType 32) (FloatType 32) (FloatType 32) 5 3 10) 2 = Inr c \<and>
     rewriterAfter [] (matchAndRewrite (\<lambda>g. True) (\<lambda>g. True) (\<lambda>g. True) []
        (gemm (FloatType 32) (FloatType 32) (FloatType 32) 5 3 10))
       = rewriter2 @ [CreateGeneric (sliceSource ex), CreateExtractSlice ex,
            ReplaceOp (gemm (FloatType 32) (FloatType 32) (FloatType 32) 5 3 10) ex] \<and>
     staticOffsets ex = [0, 0] \<and> staticStrides ex = [1, 1] \<and> staticSizes ex = [5, 10] \<and>
     extractResultShape ex = [5, 10]"
proof -
  let ?op = "gemm (FloatType 32) (FloatType 32) (FloatType 32) 5 3 10"
  let ?r = "matchAndRewrite (\<lambda>g. True) (\<lambda>g. True) (\<lambda>g. True) [] ?op"
  have h: "?r = Inr (success, rewriterAfter [] ?r)"
    by code_simp
  have c: "getOperand ?op 2 = Inr (OpOperand 2 (RankedTensorType [5, 10] (FloatType 32)))"
    by code_simp
  from extraction_restores_original_shape [OF h] c show ?thesis
    by (auto simp: numeral_2_eq_2)
qed

section \<open>Reaching the fixed point\<close>

text \<open>
  Claim C4: the C shape of the rewritten operation satisfies both divisibility constraints,
  so the pattern does not match its own output.  For extents below \<open>2\<^sup>2\<^sup>4\<close> this holds
  (\<open>rewrite_reaches_fixed_point_in_exact_range\<close>).  The parallel target is computed in
  floating point (line 116), and for an extent of \<open>2\<^sup>5\<^sup>3\<close> or more the product
  \<open>6 * ceil(...)\<close> is rounded to 53 bits and need not be a multiple of 6.  For the C shape
  \<open>(45035996273704960, 16)\<close>, where \<open>45035996273704960 = 5 * 2\<^sup>5\<^sup>3\<close> leaves the remainder 4,
  the pattern rewrites the operation, the accumulator of the replacement has the same shape
  \<open>(45035996273704960, 16)\<close>, which is not compliant, and the pattern applied to the
  replacement succeeds again.
\<close>

theorem rewrite_of_huge_extent_matches_again:
  "map_sum id fst
     (matchAndRewrite (\<lambda>g. True) (\<lambda>g. True) (\<lambda>g. True) []
        (gemm (FloatType 32) (FloatType 32) (FloatType 32) 45035996273704960 3 16))
     = Inr success \<and>
   map (\<lambda>g. (map (\<lambda>v. ShapedType_getShape (getType v)) (outputs g),
              map_sum id fst (matchAndRewrite (\<lambda>g. True) (\<lambda>g. True) (\<lambda>g. True) [] g)))
     (createdGenerics (rewriterAfter []
        (matchAndRewrite (\<lambda>g. True) (\<lambda>g. True) (\<lambda>g. True) []
           (gemm (FloatType 32) (FloatType 32) (FloatType 32) 45035996273704960 3 16))))
     = [([[45035996273704960, 16]], Inr success)] \<and>
   \<not> isCompliant 16 45035996273704960"
  by code_simp

text \<open>In particular the second application is not the "no match" outcome.\<close>

theorem rewrite_of_huge_extent_matches_again_witness:
  "map (\<lambda>g. map_sum id fst (matchAndRewrite (\<lambda>g. True) (\<lambda>g. True) (\<lambda>g. True) [] g))
     (createdGenerics (rewriterAfter []
        (matchAndRewrite (\<lambda>g. True) (\<lambda>g. True) (\<lambda>g. True) []
           (gemm (FloatType 32) (FloatType 32) (FloatType 32) 45035996273704960 3 16))))
     \<noteq> [Inr failure]"
proof -
  let ?gs = "createdGenerics (rewriterAfter []
        (matchAndRewrite (\<lambda>g. True) (\<lambda>g. True) (\<lambda>g. True) []
           (gemm (FloatType 32) (FloatType 32) (FloatType 32) 45035996273704960 3 16)))"
  let ?again = "\<lambda>g. map_sum id fst (matchAndRewrite (\<lambda>g. True) (\<lambda>g. True) (\<lambda>g. True) [] g)"
  let ?shape = "\<lambda>g. map (\<lambda>v. ShapedType_getShape (getType v)) (outputs g)"
  have "map (\<lambda>g. (?shape g, ?again g)) ?gs = [([[45035996273704960, 16]], Inr success)]"
    using rewrite_of_huge_extent_matches_again by simp
  then have "map snd (map (\<lambda>g. (?shape g, ?again g)) ?gs) = [Inr success]"
    by simp
  then have "map ?again ?gs = [Inr success]"
    by (simp add: comp_def)
  then show ?thesis by simp
qed

section \<open>Compliant shapes\<close>

text \<open>
  Claim C5: when the C shape \<open>(r, c)\<close> has \<open>c % 16 = 0\<close> and \<open>r % 6 = 0\<close>, the compliance test
  holds and the pattern performs no rewrite: it leaves the rewriter as it was and never
  succeeds, and for operands that form a well-shaped GEMM triple (A of shape \<open>(r, k)\<close>, B of
  shape \<open>(k, c)\<close>) it returns the "no match" outcome \<open>failure\<close>.
\<close>

theorem compliant_shape_is_no_match:
  assumes "getOperand linalgOp 2 = Inr c"
    and "ShapedType_getShape (getType c) = [r, cdim]"
    and "cdim smod 16 = 0" and "r smod 6 = 0"
  shows "isCompliant cdim r \<and>
         rewriterAfter rewriter
           (matchAndRewrite hasTensorSemantics hasStaticShape hasTppMark rewriter linalgOp)
           = rewriter \<and>
         (\<forall>rewriter'. matchAndRewrite hasTensorSemantics hasStaticShape hasTppMark rewriter linalgOp
            \<noteq> Inr (success, rewriter')) \<and>
         (\<forall>a b k. getOperand linalgOp 0 = Inr a \<and> getOperand linalgOp 1 = Inr b \<and>
            ShapedType_getShape (getType a) = [r, k] \<and>
            ShapedType_getShape (getType b) = [k, cdim] \<longrightarrow>
            matchAndRewrite hasTensorSemantics hasStaticShape hasTppMark rewriter linalgOp
              = Inr (failure, rewriter))"
proof -
  have compliant: "isCompliant cdim r"
    using assms by (simp add: isCompliant_def)
  have nosuccess: "padDimensions rewriter linalgOp \<noteq> Inr (success, rewriter')" for rewriter'
  proof
    assume "padDimensions rewriter linalgOp = Inr (success, rewriter')"
    from padDimensions_success [OF this] assms(1,2) compliant show False
      by auto
  qed
  have unchanged: "rewriterAfter rewriter (padDimensions rewriter linalgOp) = rewriter"
  proof (cases "padDimensions rewriter linalgOp")
    case (Inl e)
    then show ?thesis by (simp add: rewriterAfter_def)
  next
    case (Inr p)
    obtain res rewriter' where p: "p = (res, rewriter')" by (cases p)
    with Inr nosuccess [of rewriter'] have "res = failure" by (cases res) auto
    with Inr p padDimensions_failure [of rewriter linalgOp rewriter'] show ?thesis
      by (simp add: rewriterAfter_def)
  qed
  have wellformed: "padDimensions rewriter linalgOp = Inr (failure, rewriter)"
    if "getOperand linalgOp 0 = Inr a" "getOperand linalgOp 1 = Inr b"
      "ShapedType_getShape (getType a) = [r, k]" "ShapedType_getShape (getType b) = [k, cdim]"
    for a b k
    using that assms(1,2) compliant
    by (simp add: padDimensions_def bindE_def Let_def)
  from matchAndRewrite_cases [of hasTensorSemantics hasStaticShape hasTppMark rewriter linalgOp]
  show ?thesis
  proof
    assume "matchAndRewrite hasTensorSemantics hasStaticShape hasTppMark rewriter linalgOp
              = Inr (failure, rewriter)"
    with compliant show ?thesis by (simp add: rewriterAfter_def)
  next
    assume "matchAndRewrite hasTensorSemantics hasStaticShape hasTppMark rewriter linalgOp
              = padDimensions rewriter linalgOp"
    with compliant nosuccess unchanged wellformed show ?thesis by auto
  qed
qed

text \<open>The scenario of the specification: the C shape \<open>(12, 32)\<close>.\<close>

theorem compliant_shape_is_no_match_witness:
  "isCompliant 32 12 \<and>
   matchAndRewrite (\<lambda>g. True) (\<lambda>g. True) (\<lambda>g. True) []
     (gemm (FloatType 32) (FloatType 32) (FloatType 32) 12 3 32) = Inr (failure, [])"
proof -
  let ?op = "gemm (FloatType 32) (FloatType 32) (FloatType 32) 12 3 32"
  have c: "getOperand ?op 2 = Inr (OpOperand 2 (RankedTensorType [12, 32] (FloatType 32)))"
    by code_simp
  have a: "getOperand ?op 0 = Inr (OpOperand 0 (RankedTensorType [12, 3] (FloatType 32)))"
    by code_simp
  have b: "getOperand ?op 1 = Inr (OpOperand 1 (RankedTensorType [3, 32] (FloatType 32)))"
    by code_simp
  have s: "ShapedType_getShape (getType (OpOperand 2 (RankedTensorType [12, 32] (FloatType 32))))
             = [12, 32]"
    by simp
  have m16: "(32 :: int) smod 16 = 0" by code_simp
  have m6: "(12 :: int) smod 6 = 0" by code_simp
  from compliant_shape_is_no_match [OF c s m16 m6, of "[]" "\<lambda>g. True" "\<lambda>g. True" "\<lambda>g. True"] a b
  show ?thesis
    by simp
qed

section \<open>The no-fold flag\<close>

text \<open>
  Claim C6 says that every padding insertion requests no-fold semantics.  The source passes
  \<open>/*nofold*/ false\<close> in all four calls of \<open>createPadHighOp\<close>: in the scenario of the
  specification, C of shape \<open>(5, 10)\<close>, four pads are created and none has the flag.
\<close>

theorem pads_of_scenario_have_no_nofold:
  "map padNofold
     (createdPads (rewriterAfter []
        (padDimensions [] (gemm (FloatType 32) (FloatType 32) (FloatType 32) 5 3 10))))
   = [False, False, False, False]"
  by code_simp

text \<open>
  Claim C6 as amended: every padding insertion performed by the transformation is created
  with \<open>nofold = false\<close>, that is, no pad requests no-fold semantics.  The events that a run
  of the pattern adds to the rewriter contain no pad with the flag set.
\<close>

theorem pads_do_not_request_nofold:
  assumes "matchAndRewrite hasTensorSemantics hasStaticShape hasTppMark rewriter linalgOp
             = Inr (res, rewriter')"
  shows "\<exists>ev. rewriter' = rewriter @ ev \<and> list_all (\<lambda>v. \<not> padNofold v) (createdPads ev)"
proof -
  from matchAndRewrite_cases [of hasTensorSemantics hasStaticShape hasTppMark rewriter linalgOp]
  show ?thesis
  proof
    assume "matchAndRewrite hasTensorSemantics hasStaticShape hasTppMark rewriter linalgOp
              = Inr (failure, rewriter)"
    with assms have "rewriter' = rewriter @ []" by simp
    then show ?thesis by (intro exI [of _ "[]"]) simp
  next
    assume "matchAndRewrite hasTensorSemantics hasStaticShape hasTppMark rewriter linalgOp
              = padDimensions rewriter linalgOp"
    with assms have pd: "padDimensions rewriter linalgOp = Inr (res, rewriter')" by simp
    show ?thesis
    proof (cases res)
      case failure
      with pd padDimensions_failure have "rewriter' = rewriter @ []" by simp
      then show ?thesis by (intro exI [of _ "[]"]) simp
    next
      case success
      with pd padDimensions_success [of rewriter linalgOp rewriter'] obtain
        a b c rewriter1 operands1 rewriter2 operands2 where
        simd: "padSIMDDimension rewriter \<lparr>opA = a, opB = b, opC = c\<rparr>
                 (ShapedType_getShape (getType c) ! 1) = Inr (rewriter1, operands1)" and
        par: "padParallelDimension rewriter1 operands1 (ShapedType_getShape (getType c) ! 0)
                 = Inr (rewriter2, operands2)" and
        r: "rewriter' = rewriter2 @
             [CreateGeneric (createReplacementOp linalgOp operands2),
              CreateExtractSlice (createExtractSlice (ShapedType_getShape (getType c))
                                    (createReplacementOp linalgOp operands2)),
              ReplaceOp linalgOp (createExtractSlice (ShapedType_getShape (getType c))
                                    (createReplacementOp linalgOp operands2))]"
        by blast
      from padSIMDDimension_log [OF simd] obtain ev1 where
        ev1: "rewriter1 = rewriter @ ev1" "list_all (\<lambda>v. \<not> padNofold v) (createdPads ev1)"
        by blast
      from padParallelDimension_log [OF par] obtain ev2 where
        ev2: "rewriter2 = rewriter1 @ ev2" "list_all (\<lambda>v. \<not> padNofold v) (createdPads ev2)"
        by blast
      let ?tl = "[CreateGeneric (createReplacementOp linalgOp operands2),
              CreateExtractSlice (createExtractSlice (ShapedType_getShape (getType c))
                                    (createReplacementOp linalgOp operands2)),
              ReplaceOp linalgOp (createExtractSlice (ShapedType_getShape (getType c))
                                    (createReplacementOp linalgOp operands2))]"
      from r ev1 ev2 show ?thesis
        by (intro exI [of _ "ev1 @ ev2 @ ?tl"]) (simp add: createdPads_append)
    qed
  qed
qed

theorem pads_do_not_request_nofold_witness:
  "list_all (\<lambda>v. \<not> padNofold v)
     (createdPads (rewriterAfter []
        (matchAndRewrite (\<lambda>g. True) (\<lambda>g. True) (\<lambda>g. True) []
           (gemm (FloatType 32) (FloatType 32) (FloatType 32) 5 3 10)))) \<and>
   length (createdPads (rewriterAfter []
        (matchAndRewrite (\<lambda>g. True) (\<lambda>g. True) (\<lambda>g. True) []
           (gemm (FloatType 32) (FloatType 32) (FloatType 32) 5 3 10)))) = 4"
proof -
  let ?r = "matchAndRewrite (\<lambda>g. True) (\<lambda>g. True) (\<lambda>g. True) []
              (gemm (FloatType 32) (FloatType 32) (FloatType 32) 5 3 10)"
  have h: "?r = Inr (success, rewriterAfter [] ?r)"
    by code_simp
  have n: "length (createdPads (rewriterAfter [] ?r)) = 4"
    by code_simp
  from pads_do_not_request_nofold [OF h] n show ?thesis
    by simp
qed

section \<open>The broadcast check\<close>

text \<open>
  Claim C7 says that the broadcast of the inputs is compared with the trailing dimensions
  of the declared result by the same rule as between inputs, under which a size-1 result
  dimension is tolerated.  The lambda of lines 17-24 is not symmetric: an inferred extent 1
  is compatible with any declared extent, but a declared extent 1 is not compatible with an
  inferred extent 4.  For the input shapes \<open>(3,1)\<close> and \<open>(1,4)\<close> and the declared result
  shape \<open>(3,1)\<close> the check fails.
\<close>

theorem size_one_result_is_rejected:
  "fst (verifyCompatibleOperandBroadcast (- (2 ^ 63))
     [RankedTensorType [3, 1] (FloatType 32), RankedTensorType [1, 4] (FloatType 32)]
     (RankedTensorType [3, 1] (FloatType 32)) False) = failure \<and>
   \<not> isCompatible (- (2 ^ 63)) 4 1 \<and> isCompatible (- (2 ^ 63)) 1 4"
  by code_simp

text \<open>
  Claim C7 as amended: the check compares the broadcast of the input shapes with the
  trailing dimensions of the declared result shape; an inferred and a declared extent are
  compatible iff they are equal, or one of them is dynamic, or the inferred one is 1 (a
  declared extent 1 against another static inferred extent is a mismatch); the check
  succeeds iff the inputs broadcast and the two shapes have the same length and compatible
  extents throughout.  For the input shapes \<open>(3,1)\<close> and \<open>(1,4)\<close> it succeeds with the
  result shape \<open>(3,4)\<close> and fails with \<open>(3,5)\<close> and with \<open>(3,1)\<close>.
\<close>

theorem result_shape_rule_is_asymmetric:
  "(isCompatibleInferredReturnShape kDynamic inferred existing \<longleftrightarrow>
      length inferred = length existing \<and>
      (\<forall>i<length inferred. inferred ! i = existing ! i \<or> inferred ! i = kDynamic \<or>
         existing ! i = kDynamic \<or> inferred ! i = 1)) \<and>
   (inputTypes \<noteq> [] \<longrightarrow>
      (fst (verifyCompatibleOperandBroadcast kDynamic inputTypes outputType emitDiagnostic)
         = success \<longleftrightarrow>
       (\<exists>resultShape.
          broadcastInputs kDynamic (getShape (hd inputTypes)) inputTypes = Some resultShape \<and>
          isCompatibleInferredReturnShape kDynamic resultShape
            (take_back (length resultShape) (getShape outputType))))) \<and>
   take_back n (getShape outputType)
     = drop (length (getShape outputType) - n) (getShape outputType) \<and>
   (kDynamic \<notin> {1, 3, 4, 5} \<longrightarrow>
      verifyCompatibleOperandBroadcast kDynamic
        [RankedTensorType [3, 1] ea, RankedTensorType [1, 4] eb] (RankedTensorType [3, 4] ec)
        emitDiagnostic = (success, []) \<and>
      fst (verifyCompatibleOperandBroadcast kDynamic
        [RankedTensorType [3, 1] ea, RankedTensorType [1, 4] eb] (RankedTensorType [3, 5] ec)
        emitDiagnostic) = failure \<and>
      fst (verifyCompatibleOperandBroadcast kDynamic
        [RankedTensorType [3, 1] ea, RankedTensorType [1, 4] eb] (RankedTensorType [3, 1] ec)
        emitDiagnostic) = failure)"
proof -
  have tb: "take_back n (getShape outputType)
     = drop (length (getShape outputType) - n) (getShape outputType)"
    by (simp add: take_back_def)
  have ex: "verifyCompatibleOperandBroadcast kDynamic
        [RankedTensorType [3, 1] ea, RankedTensorType [1, 4] eb] (RankedTensorType [3, 4] ec)
        emitDiagnostic = (success, []) \<and>
      fst (verifyCompatibleOperandBroadcast kDynamic
        [RankedTensorType [3, 1] ea, RankedTensorType [1, 4] eb] (RankedTensorType [3, 5] ec)
        emitDiagnostic) = failure \<and>
      fst (verifyCompatibleOperandBroadcast kDynamic
        [RankedTensorType [3, 1] ea, RankedTensorType [1, 4] eb] (RankedTensorType [3, 1] ec)
        emitDiagnostic) = failure"
    if "kDynamic \<notin> {1, 3, 4, 5}"
    using that
    by (simp add: verifyCompatibleOperandBroadcast_def getShape_def getBroadcastedShape_def
          isDynamic_def take_back_def isCompatibleInferredReturnShape_def isCompatible_def)
  show ?thesis
    using isCompatibleInferredReturnShape_iff [of kDynamic inferred existing]
      verifyCompatibleOperandBroadcast_success_iff [of inputTypes kDynamic outputType emitDiagnostic]
      tb ex
    by blast
qed

theorem result_shape_rule_is_asymmetric_witness:
  "isCompatibleInferredReturnShape (- (2 ^ 63)) [3, 1] [3, 4] \<and>
   \<not> isCompatibleInferredReturnShape (- (2 ^ 63)) [3, 4] [3, 1] \<and>
   verifyCompatibleOperandBroadcast (- (2 ^ 63))
     [RankedTensorType [3, 1] (FloatType 32), RankedTensorType [1, 4] (FloatType 32)]
     (RankedTensorType [3, 4] (FloatType 32)) True = (success, []) \<and>
   fst (verifyCompatibleOperandBroadcast (- (2 ^ 63))
     [RankedTensorType [3, 1] (FloatType 32), RankedTensorType [1, 4] (FloatType 32)]
     (RankedTensorType [3, 5] (FloatType 32)) True) = failure"
proof -
  have k: "(- (2 ^ 63) :: int) \<notin> {1, 3, 4, 5}" by simp
  have a: "isCompatibleInferredReturnShape (- (2 ^ 63)) [3, 1] [3, 4]"
    using result_shape_rule_is_asymmetric [where kDynamic = "- (2 ^ 63)" and inferred = "[3, 1]"
        and existing = "[3, 4]"]
    by (simp add: less_Suc_eq numeral_2_eq_2)
  have b: "\<not> isCompatibleInferredReturnShape (- (2 ^ 63)) [3, 4] [3, 1]"
    using result_shape_rule_is_asymmetric [where kDynamic = "- (2 ^ 63)" and inferred = "[3, 4]"
        and existing = "[3, 1]"]
    by (auto simp: numeral_2_eq_2)
  from result_shape_rule_is_asymmetric [where kDynamic = "- (2 ^ 63)" and ea = "FloatType 32"
      and eb = "FloatType 32" and ec = "FloatType 32" and emitDiagnostic = True] k a b
  show ?thesis by blast
qed

section \<open>The unit-stride check\<close>

text \<open>
  What the three tests of the loop decide.  At a memref operand the check fails, and does
  not abort, when the strides cannot be computed, when the vector \<open>strides\<close> is empty after
  the call and when its last entry is not 1; for a single operand with the strides \<open>(4,1)\<close>
  it succeeds and with \<open>(1,4)\<close> it fails.  The operand stands behind any prefix \<open>pre\<close> of
  memref operands that pass, and before any operands \<open>rest\<close>.  The tests read the content of
  the shared vector, which is the stride sequence of the operand itself only when the vector
  was empty before the call.
\<close>

lemma unit_stride_check_fails:
  assumes "stridesAfter getStridesAndOffset [] pre = Some strides"
    and "isaMemRefType operandType"
  shows "(getStridesAndOffset operandType strides = None \<longrightarrow>
            (\<exists>d. verifyUnitStrideInnerLoop getStridesAndOffset (pre @ operandType # rest) emit
                    = Inr (failure, d))) \<and>
         (\<forall>strides' offset. getStridesAndOffset operandType strides = Some (strides', offset) \<and>
            (strides' = [] \<or> last strides' \<noteq> 1) \<longrightarrow>
            (\<exists>d. verifyUnitStrideInnerLoop getStridesAndOffset (pre @ operandType # rest) emit
                    = Inr (failure, d))) \<and>
         (\<forall>offset. getStridesAndOffset operandType [] = Some ([4, 1], offset) \<longrightarrow>
            verifyUnitStrideInnerLoop getStridesAndOffset [operandType] emit = Inr (success, [])) \<and>
         (\<forall>offset. getStridesAndOffset operandType [] = Some ([1, 4], offset) \<longrightarrow>
            (\<exists>d. verifyUnitStrideInnerLoop getStridesAndOffset [operandType] emit
                    = Inr (failure, d)))"
proof -
  note shaped = isaMemRefType_shaped [OF assms(2)]
  note reach = verifyUnitStrideInnerLoop_reach [OF assms(1)]
  have none: "getStridesAndOffset operandType strides = None \<longrightarrow>
      (\<exists>d. verifyUnitStrideInnerLoop getStridesAndOffset (pre @ operandType # rest) emit
              = Inr (failure, d))"
    using assms(2) shaped by (simp add: reach)
  have bad: "\<forall>strides' offset. getStridesAndOffset operandType strides = Some (strides', offset) \<and>
      (strides' = [] \<or> last strides' \<noteq> 1) \<longrightarrow>
      (\<exists>d. verifyUnitStrideInnerLoop getStridesAndOffset (pre @ operandType # rest) emit
              = Inr (failure, d))"
    using assms(2) shaped by (auto simp: reach)
  have ok: "\<forall>offset. getStridesAndOffset operandType [] = Some ([4, 1], offset) \<longrightarrow>
      verifyUnitStrideInnerLoop getStridesAndOffset [operandType] emit = Inr (success, [])"
    using assms(2) shaped by (simp add: verifyUnitStrideInnerLoop_def)
  have ko: "\<forall>offset. getStridesAndOffset operandType [] = Some ([1, 4], offset) \<longrightarrow>
      (\<exists>d. verifyUnitStrideInnerLoop getStridesAndOffset [operandType] emit
              = Inr (failure, d))"
    using assms(2) shaped by (simp add: verifyUnitStrideInnerLoop_def)
  from none bad ok ko show ?thesis by blast
qed

lemma unit_stride_check_examples:
  "verifyUnitStrideInnerLoop stridedLayoutStrides
     [MemRefType [8, 4] (FloatType 32) (StridedLayout [4, 1] 0)] True = Inr (success, []) \<and>
   (\<exists>d. verifyUnitStrideInnerLoop stridedLayoutStrides
     [MemRefType [8, 4] (FloatType 32) (StridedLayout [1, 4] 0)] True = Inr (failure, d)) \<and>
   (\<exists>d. verifyUnitStrideInnerLoop stridedLayoutStrides
     [MemRefType [8, 4] (FloatType 32) (StridedLayout [4, 1] 0),
      MemRefType [8, 4] (FloatType 32) (AffineMapLayout ''(i, j) -> (j, i)'')] True
       = Inr (failure, d))"
proof -
  have nil: "stridesAfter stridedLayoutStrides [] [] = Some []"
    by simp
  have one: "stridesAfter stridedLayoutStrides []
      [MemRefType [8, 4] (FloatType 32) (StridedLayout [4, 1] 0)] = Some [4, 1]"
    by simp
  have ok: "verifyUnitStrideInnerLoop stridedLayoutStrides
     [MemRefType [8, 4] (FloatType 32) (StridedLayout [4, 1] 0)] True = Inr (success, [])"
    using unit_stride_check_fails [OF nil,
        of "MemRefType [8, 4] (FloatType 32) (StridedLayout [4, 1] 0)" "[]" True]
    by simp
  have ko: "\<exists>d. verifyUnitStrideInnerLoop stridedLayoutStrides
     [MemRefType [8, 4] (FloatType 32) (StridedLayout [1, 4] 0)] True = Inr (failure, d)"
    using unit_stride_check_fails [OF nil,
        of "MemRefType [8, 4] (FloatType 32) (StridedLayout [1, 4] 0)" "[]" True]
    by simp
  have layout: "\<exists>d. verifyUnitStrideInnerLoop stridedLayoutStrides
     [MemRefType [8, 4] (FloatType 32) (StridedLayout [4, 1] 0),
      MemRefType [8, 4] (FloatType 32) (AffineMapLayout ''(i, j) -> (j, i)'')] True
       = Inr (failure, d)"
    using unit_stride_check_fails [OF one,
        of "MemRefType [8, 4] (FloatType 32) (AffineMapLayout ''(i, j) -> (j, i)'')" "[]" True]
    by simp
  from ok ko layout show ?thesis by blast
qed

text \<open>
  Claim C8: for every memref operand the check fails, and does not abort, when the strides
  cannot be computed, when the computed stride sequence is empty and when the innermost
  stride is not 1; it succeeds for the strides \<open>(4,1)\<close> and fails for \<open>(1,4)\<close>.  The source
  declares \<open>strides\<close> once, before the loop (line 86), and never clears it, and
  \<open>getStridesAndOffset\<close> appends to it.  A memref of rank 0 has the empty stride sequence;
  as the only or the first operand it fails the check, as the comment of lines 101-102
  intends.  Behind a memref with the strides \<open>(4,1)\<close> the vector still holds \<open>[4, 1]\<close>:
  \<open>strides.empty()\<close> is false, \<open>strides.back()\<close> is the 1 of the operand before, and the
  check succeeds although the stride sequence computed for the operand is empty.
\<close>

theorem rank_zero_memref_passes_behind_another:
  "stridedLayoutStrides (MemRefType [] (FloatType 32) (StridedLayout [] 0)) [] = Some ([], 0) \<and>
   verifyUnitStrideInnerLoop stridedLayoutStrides
     [MemRefType [] (FloatType 32) (StridedLayout [] 0)] True = Inr (failure, []) \<and>
   verifyUnitStrideInnerLoop stridedLayoutStrides
     [MemRefType [] (FloatType 32) (StridedLayout [] 0),
      MemRefType [8, 4] (FloatType 32) (StridedLayout [4, 1] 0)] True = Inr (failure, []) \<and>
   verifyUnitStrideInnerLoop stridedLayoutStrides
     [MemRefType [8, 4] (FloatType 32) (StridedLayout [4, 1] 0),
      MemRefType [] (FloatType 32) (StridedLayout [] 0)] True = Inr (success, []) \<and>
   verifyUnitStrideInnerLoop stridedLayoutStrides
     [MemRefType [8, 4] (FloatType 32) (StridedLayout [4, 1] 0),
      MemRefType [] (FloatType 32) (StridedLayout [] 0)] False = Inr (success, [])"
  by (simp add: verifyUnitStrideInnerLoop_def)

text \<open>In particular the check does not fail at the operand of rank 0.\<close>

theorem rank_zero_memref_passes_behind_another_witness:
  "verifyUnitStrideInnerLoop stridedLayoutStrides
     [MemRefType [8, 4] (FloatType 32) (StridedLayout [4, 1] 0),
      MemRefType [] (FloatType 32) (StridedLayout [] 0)] True \<noteq> Inr (failure, [])"
  using rank_zero_memref_passes_behind_another by simp

text \<open>
  Claim C9: when the loop reaches an operand that is not shaped, the check returns success
  at once, whatever operands follow it.
\<close>

theorem non_shaped_operand_short_circuits:
  assumes "stridesAfter getStridesAndOffset [] pre = Some strides"
    and "\<not> isaShapedType operandType"
  shows "verifyUnitStrideInnerLoop getStridesAndOffset (pre @ operandType # rest) emit
           = Inr (success, [])"
  using assms(2) by (simp add: verifyUnitStrideInnerLoop_reach [OF assms(1)])

text \<open>An index operand hides the non-unit stride of the memref behind it.\<close>

theorem non_shaped_operand_short_circuits_witness:
  "verifyUnitStrideInnerLoop stridedLayoutStrides
     [MemRefType [8, 4] (FloatType 32) (StridedLayout [4, 1] 0), IndexType,
      MemRefType [8, 4] (FloatType 32) (StridedLayout [1, 4] 0)] True = Inr (success, [])"
proof -
  have one: "stridesAfter stridedLayoutStrides []
      [MemRefType [8, 4] (FloatType 32) (StridedLayout [4, 1] 0)] = Some [4, 1]"
    by simp
  have idx: "\<not> isaShapedType IndexType"
    by simp
  from non_shaped_operand_short_circuits [OF one idx] show ?thesis
    by simp
qed

text \<open>
  Claim C10: with \<open>emitDiagnostic = true\<close>, the failure for an empty stride vector emits no
  diagnostic, while the failure to compute the strides and the failure for a non-unit
  innermost stride emit one diagnostic each, naming the operand.
\<close>

theorem empty_strides_fail_silently:
  assumes "stridesAfter getStridesAndOffset [] pre = Some strides"
    and "isaMemRefType operandType"
  shows "(\<forall>offset. getStridesAndOffset operandType strides = Some ([], offset) \<longrightarrow>
            verifyUnitStrideInnerLoop getStridesAndOffset (pre @ operandType # rest) True
              = Inr (failure, [])) \<and>
         (getStridesAndOffset operandType strides = None \<longrightarrow>
            verifyUnitStrideInnerLoop getStridesAndOffset (pre @ operandType # rest) True
              = Inr (failure, [FailedToComputeStrides (length pre)])) \<and>
         (\<forall>strides' offset. getStridesAndOffset operandType strides = Some (strides', offset) \<and>
            strides' \<noteq> [] \<and> last strides' \<noteq> 1 \<longrightarrow>
            verifyUnitStrideInnerLoop getStridesAndOffset (pre @ operandType # rest) True
              = Inr (failure, [NonUnitStride (length pre)]))"
  using assms(2)
  by (auto simp: verifyUnitStrideInnerLoop_reach [OF assms(1)] isaMemRefType_shaped)

theorem empty_strides_fail_silently_witness:
  "verifyUnitStrideInnerLoop stridedLayoutStrides
     [MemRefType [] (FloatType 32) (StridedLayout [] 0)] True = Inr (failure, []) \<and>
   verifyUnitStrideInnerLoop stridedLayoutStrides
     [MemRefType [8, 4] (FloatType 32) (AffineMapLayout ''(i, j) -> (j, i)'')] True
       = Inr (failure, [FailedToComputeStrides 0]) \<and>
   verifyUnitStrideInnerLoop stridedLayoutStrides
     [MemRefType [8, 4] (FloatType 32) (StridedLayout [1, 4] 0)] True
       = Inr (failure, [NonUnitStride 0])"
proof -
  have nil: "stridesAfter stridedLayoutStrides [] [] = Some []"
    by simp
  have empty: "verifyUnitStrideInnerLoop stridedLayoutStrides
     [MemRefType [] (FloatType 32) (StridedLayout [] 0)] True = Inr (failure, [])"
    using empty_strides_fail_silently [OF nil,
        of "MemRefType [] (FloatType 32) (StridedLayout [] 0)" "[]"]
    by simp
  have layout: "verifyUnitStrideInnerLoop stridedLayoutStrides
     [MemRefType [8, 4] (FloatType 32) (AffineMapLayout ''(i, j) -> (j, i)'')] True
       = Inr (failure, [FailedToComputeStrides 0])"
    using empty_strides_fail_silently [OF nil,
        of "MemRefType [8, 4] (FloatType 32) (AffineMapLayout ''(i, j) -> (j, i)'')" "[]"]
    by simp
  have stride: "verifyUnitStrideInnerLoop stridedLayoutStrides
     [MemRefType [8, 4] (FloatType 32) (StridedLayout [1, 4] 0)] True
       = Inr (failure, [NonUnitStride 0])"
    using empty_strides_fail_silently [OF nil,
        of "MemRefType [8, 4] (FloatType 32) (StridedLayout [1, 4] 0)" "[]"]
    by simp
  from empty layout stride show ?thesis by blast
qed

end
